theory Spec2Isabelle
  imports Main "HOL-Library.Word"
begin

unbundle bit_operations_syntax

section \<open>The connection engine of the audit log server (logsrvd.c)\<close>

text \<open>
  A shallow embedding of the per-connection state machine, the message handlers, the
  local sink, the framed codec and the close path of \<^verbatim>\<open>src/logsrvd/logsrvd.c\<close>.
  Every C function that is modelled keeps its name. A handler receives the closure and
  returns the closure it leaves behind together with its \<^verbatim>\<open>bool\<close> result. Debug logging
  (\<^verbatim>\<open>sudo_debug_printf\<close>) has no effect on the closure and is left out. The message
  catalogue lookup \<^verbatim>\<open>_("...")\<close> is the identity (the untranslated catalogue).
\<close>

subsection \<open>Data\<close>

type_synonym byte = "8 word"
type_synonym uint32 = "32 word"

text \<open>A \<^verbatim>\<open>struct timespec\<close> / \<^verbatim>\<open>TimeSpec\<close>: seconds and nanoseconds.\<close>

type_synonym timespec = "int \<times> int"

text \<open>The connection states that the source names.\<close>

datatype connection_status = INITIAL | RUNNING | EXITED | SHUTDOWN | FINISHED | ERROR

text \<open>
  \<^verbatim>\<open>struct connection_buffer\<close>: the storage region, its allocated size, the fill level
  \<^verbatim>\<open>len\<close> and the consumed prefix \<^verbatim>\<open>off\<close>; the three counters are \<^verbatim>\<open>unsigned int\<close>.
  The storage is a list of bytes whose length is the allocated size.
\<close>

record connection_buffer =
  data :: "byte list"
  size_buf :: uint32
  len :: uint32
  off :: uint32

text \<open>
  \<^verbatim>\<open>struct sudo_event\<close>, as far as the server looks at it: whether the event is in the
  event queue (\<^verbatim>\<open>SUDO_EVQ_INSERTED\<close>) and the timeout it was added with.
\<close>

record sudo_event =
  inserted :: bool
  timeo :: "timespec option"

text \<open>The event log record; only the I/O log path is read by logsrvd.c.\<close>

record eventlog =
  iolog_path :: "string option"

type_synonym relay_client_closure = nat
type_synonym file_handle = nat

text \<open>Which message switch \<^verbatim>\<open>closure->cms\<close> points to.\<close>

datatype cms_kind = CMS_LOCAL | CMS_RELAY | CMS_JOURNAL

text \<open>
  \<^verbatim>\<open>struct connection_closure\<close>. A pointer that may be \<^verbatim>\<open>NULL\<close> is an option. The read
  event is allocated for every closure that \<^verbatim>\<open>connection_closure_alloc\<close> returns, the
  write and commit events only for a closure that is not relay-only.
\<close>

record connection_closure =
  state :: connection_status
  errstr :: "string option"
  log_io :: bool
  store_first :: bool
  read_instead_of_write :: bool
  write_instead_of_read :: bool
  temporary_write_event :: bool
  relay_closure :: "relay_client_closure option"
  journal :: "file_handle option"
  journal_path :: "string option"
  sock :: int
  iolog_dir_fd :: int
  ssl :: "nat option"
  evlog :: "eventlog option"
  elapsed_time :: timespec
  read_buf :: connection_buffer
  write_bufs :: "connection_buffer list"
  free_bufs :: "connection_buffer list"
  read_ev :: sudo_event
  write_ev :: "sudo_event option"
  commit_ev :: "sudo_event option"
  ssl_accept_ev :: "sudo_event option"
  cms :: cms_kind
  ipaddr :: string

subsection \<open>Protocol messages\<close>

text \<open>
  The unpacked protocol records (\<^verbatim>\<open>log_server.pb-c.h\<close>), with the fields that the
  handlers read. A pointer field that the handlers test against \<^verbatim>\<open>NULL\<close> is an option;
  \<^verbatim>\<open>n_info_msgs\<close> is the length of \<^verbatim>\<open>info_msgs\<close>.
\<close>

datatype info_value = NUMVAL int | STRVAL string | STRLISTVAL "string list" | VALUE_NOT_SET

type_synonym InfoMessage = "string \<times> info_value"

record AcceptMessage =
  submit_time :: "timespec option"
  info_msgs :: "InfoMessage list"
  expect_iobufs :: bool

record RejectMessage =
  rej_submit_time :: "timespec option"
  rej_reason :: string
  rej_info_msgs :: "InfoMessage list"

record ExitMessage =
  exit_value :: int
  dumped_core :: bool
  signal :: "string option"

record RestartMessage =
  log_id :: string
  resume_point :: "timespec option"

record AlertMessage =
  alert_time :: "timespec option"
  alert_reason :: "string option"
  alert_info_msgs :: "InfoMessage list"

record IoBuffer =
  delay :: "timespec option"
  iobuf_data :: "byte list"

record ChangeWindowSize =
  ws_delay :: "timespec option"
  rows :: int
  cols :: int

record CommandSuspend =
  cs_delay :: "timespec option"
  cs_signal :: string

record ClientHello =
  client_id :: string

text \<open>\<^verbatim>\<open>ClientMessage\<close> with its \<^verbatim>\<open>type_case\<close>; the last constructor is any other value.\<close>

datatype ClientMessage =
    TYPE_ACCEPT_MSG AcceptMessage
  | TYPE_REJECT_MSG RejectMessage
  | TYPE_EXIT_MSG ExitMessage
  | TYPE_RESTART_MSG RestartMessage
  | TYPE_ALERT_MSG AlertMessage
  | TYPE_TTYIN_BUF IoBuffer
  | TYPE_TTYOUT_BUF IoBuffer
  | TYPE_STDIN_BUF IoBuffer
  | TYPE_STDOUT_BUF IoBuffer
  | TYPE_STDERR_BUF IoBuffer
  | TYPE_WINSIZE_EVENT ChangeWindowSize
  | TYPE_SUSPEND_EVENT CommandSuspend
  | TYPE_HELLO_MSG ClientHello
  | TYPE_NOT_SET

datatype iofd = IOFD_STDIN | IOFD_STDOUT | IOFD_STDERR | IOFD_TTYIN | IOFD_TTYOUT

text \<open>\<^verbatim>\<open>ServerMessage\<close> with the four kinds that logsrvd.c formats.\<close>

datatype ServerMessage =
    TYPE_HELLO string
  | TYPE_COMMIT_POINT timespec
  | TYPE_LOG_ID string
  | TYPE_ERROR string

subsection \<open>What lies outside logsrvd.c\<close>

text \<open>
  The constants of \<^verbatim>\<open>logsrvd.h\<close> and the configuration getters are not part of the
  source file. They are parameters of the model.
\<close>

record config =
  MESSAGE_SIZE_MAX :: nat
  ACK_FREQUENCY :: int
  server_timeout :: "timespec option"
  relay_store_first :: bool

text \<open>
  The results of the calls that one handler run makes into the allocator, the event
  library, the protocol buffer library and the I/O log writer. Each is an input of the
  model, so that every failure branch of the source is a branch of the model.
  \<^item> \<open>packed\<close> is \<^verbatim>\<open>server_message__pack\<close>; its length is
    \<^verbatim>\<open>server_message__get_packed_size\<close>. \<open>unpack\<close> is \<^verbatim>\<open>client_message__unpack\<close>,
    \<^verbatim>\<open>None\<close> for \<^verbatim>\<open>NULL\<close>.
  \<^item> \<open>iolog_init_r\<close> is \<^verbatim>\<open>None\<close> when \<^verbatim>\<open>iolog_init\<close> fails and otherwise the I/O log
    path that it stores in the event log record.
  \<^item> \<open>expand_buf\<close> is the function of that name in the shared utility file, which is
    not under src/: the buffer that results when the read buffer is grown to hold the
    given number of bytes, \<^verbatim>\<open>None\<close> when that fails.
  \<^item> \<open>connect_relay\<close> is the function of that name in the relay client, which is not
    under src/: its result and the closure as it leaves it.
  \<^item> \<open>ev_alloc_ok\<close> says whether the calls of \<^verbatim>\<open>sudo_ev_alloc\<close> succeed.
  \<^item> \<open>random_dropped\<close> is the outcome of the random drop test of \<^verbatim>\<open>store_iobuf_local\<close>
    (\<^verbatim>\<open>random_drop > 0.0\<close> and the variate below it).
\<close>

record extern =
  ev_add_ok :: bool
  calloc_ok :: bool
  malloc_ok :: bool
  packed :: "ServerMessage \<Rightarrow> byte list"
  unpack :: "byte list \<Rightarrow> ClientMessage option"
  evlog_new_r :: "eventlog option"
  iolog_init_r :: "string option"
  eventlog_accept_ok :: bool
  eventlog_reject_ok :: bool
  eventlog_alert_ok :: bool
  iolog_restart_ok :: bool
  store_iobuf_ok :: bool
  store_winsize_ok :: bool
  store_suspend_ok :: bool
  random_dropped :: bool
  ev_alloc_ok :: bool
  connect_relay :: "connection_closure \<Rightarrow> bool \<times> connection_closure"
  expand_buf :: "connection_buffer \<Rightarrow> nat \<Rightarrow> connection_buffer option"

text \<open>
  A run of a handler ends in a memory fault where the C code would follow a \<^verbatim>\<open>NULL\<close>
  pointer or leave a buffer; otherwise it returns its result and the closure.
\<close>

datatype fault = Null_deref | Out_of_bounds

type_synonym hres = "fault + bool \<times> connection_closure"

text \<open>
  Modelled from the spec: \<^verbatim>\<open>sudo_ev_add\<close> and \<^verbatim>\<open>sudo_ev_del\<close> belong to the event
  library, which is not under src/. Adding an event schedules (arms) it with the given
  timeout, or fails and leaves it as it was; deleting deregisters it.
\<close>

definition sudo_ev_add :: "bool \<Rightarrow> sudo_event \<Rightarrow> timespec option \<Rightarrow> sudo_event option" where
  "sudo_ev_add ok ev timo = (if ok then Some (ev\<lparr>inserted := True, timeo := timo\<rparr>) else None)"

definition sudo_ev_del :: "sudo_event \<Rightarrow> sudo_event" where
  "sudo_ev_del ev = ev\<lparr>inserted := False\<rparr>"

text \<open>
  Modelled from the spec: \<^verbatim>\<open>sudo_pow2_roundup\<close> is not under src/; the capacity growth
  policy is to round up to the next power of two. The result is an \<^verbatim>\<open>unsigned int\<close>.
\<close>

fun pow2_from :: "nat \<Rightarrow> nat \<Rightarrow> nat \<Rightarrow> nat" where
  "pow2_from 0 p n = p"
| "pow2_from (Suc k) p n = (if n \<le> p then p else pow2_from k (2 * p) n)"

definition sudo_pow2_roundup :: "nat \<Rightarrow> uint32" where
  "sudo_pow2_roundup n = of_nat (pow2_from 32 1 n)"

subsection \<open>Write buffers and the encoder\<close>

text \<open>
  \<^verbatim>\<open>htonl\<close> followed by \<^verbatim>\<open>memcpy\<close> of the four bytes: the length in network byte order.
  \<^verbatim>\<open>rd32\<close> is the \<^verbatim>\<open>memcpy\<close> into a \<^verbatim>\<open>uint32_t\<close> followed by \<^verbatim>\<open>ntohl\<close>.
\<close>

definition be32 :: "uint32 \<Rightarrow> byte list" where
  "be32 w = [ucast (drop_bit 24 w), ucast (drop_bit 16 w), ucast (drop_bit 8 w), ucast w]"

definition rd32 :: "byte \<Rightarrow> byte \<Rightarrow> byte \<Rightarrow> byte \<Rightarrow> uint32" where
  "rd32 b0 b1 b2 b3 =
     push_bit 24 (ucast b0) OR push_bit 16 (ucast b1) OR push_bit 8 (ucast b2) OR ucast b3"

text \<open>Reading and writing a region of a storage area; \<^verbatim>\<open>None\<close> outside of it.\<close>

definition load :: "byte list \<Rightarrow> nat \<Rightarrow> nat \<Rightarrow> byte list option" where
  "load mem at n = (if at + n \<le> length mem then Some (take n (drop at mem)) else None)"

definition store :: "byte list \<Rightarrow> nat \<Rightarrow> byte list \<Rightarrow> byte list option" where
  "store mem at xs =
     (if at + length xs \<le> length mem
      then Some (take at mem @ xs @ drop (at + length xs) mem) else None)"

text \<open>The bytes of a buffer that are still to be consumed or sent: \<^verbatim>\<open>data[off..len)\<close>.\<close>

definition pending :: "connection_buffer \<Rightarrow> byte list" where
  "pending b = drop (unat (off b)) (take (unat (len b)) (data b))"

text \<open>A buffer fresh from \<^verbatim>\<open>calloc\<close>.\<close>

definition zero_buf :: connection_buffer where
  "zero_buf = \<lparr>data = [], size_buf = 0, len = 0, off = 0\<rparr>"

text \<open>
  \<^verbatim>\<open>get_free_buf\<close>: take the head of the free list or allocate a buffer, and give it a
  storage of \<^verbatim>\<open>sudo_pow2_roundup(len)\<close> bytes when it is too small. The result is the
  buffer (\<^verbatim>\<open>None\<close> for \<^verbatim>\<open>NULL\<close>) and the closure with its free list. A failed \<^verbatim>\<open>calloc\<close>
  is not tested by the source before \<^verbatim>\<open>buf->size\<close> is read. Fresh storage is written
  before it is read; the model fills it with zeros.
\<close>

definition get_free_buf ::
  "extern \<Rightarrow> nat \<Rightarrow> connection_closure \<Rightarrow> fault + connection_buffer option \<times> connection_closure"
where
  "get_free_buf ex n c =
     (case (case free_bufs c of
              b # bs \<Rightarrow> Some (b, c\<lparr>free_bufs := bs\<rparr>)
            | [] \<Rightarrow> if calloc_ok ex then Some (zero_buf, c) else None) of
        None \<Rightarrow> Inl Null_deref
      | Some (buf, c1) \<Rightarrow>
          if n > unat (size_buf buf) then
            (if malloc_ok ex
             then Inr (Some (buf\<lparr>size_buf := sudo_pow2_roundup n,
                                 data := replicate (unat (sudo_pow2_roundup n)) 0\<rparr>), c1)
             else Inr (None, c1))
          else Inr (Some buf, c1))"

text \<open>The frame of a server message: the length prefix and the packed record.\<close>

definition frame :: "byte list \<Rightarrow> byte list" where
  "frame p = be32 (of_nat (length p)) @ p"

text \<open>
  \<^verbatim>\<open>fmt_server_message\<close>: refuse a record longer than \<^verbatim>\<open>MESSAGE_SIZE_MAX\<close>, get a buffer
  of 4 + L bytes, write the prefix and the packed record, and append the buffer to the
  write queue.
\<close>

definition fmt_server_message :: "config \<Rightarrow> extern \<Rightarrow> connection_closure \<Rightarrow> ServerMessage \<Rightarrow> hres" where
  "fmt_server_message cfg ex c msg =
     (let p = packed ex msg in
      if length p > MESSAGE_SIZE_MAX cfg then Inr (False, c)
      else
        (case get_free_buf ex (length p + 4) c of
           Inl f \<Rightarrow> Inl f
         | Inr (None, c1) \<Rightarrow> Inr (False, c1)
         | Inr (Some buf, c1) \<Rightarrow>
             (case store (data buf) 0 (frame p) of
                None \<Rightarrow> Inl Out_of_bounds
              | Some d \<Rightarrow>
                  Inr (True, c1\<lparr>write_bufs :=
                    write_bufs c1 @ [buf\<lparr>data := d, len := of_nat (length p + 4)\<rparr>]\<rparr>))))"

definition fmt_hello_message :: "config \<Rightarrow> extern \<Rightarrow> string \<Rightarrow> connection_closure \<Rightarrow> hres" where
  "fmt_hello_message cfg ex server_id c = fmt_server_message cfg ex c (TYPE_HELLO server_id)"

definition fmt_log_id_message :: "config \<Rightarrow> extern \<Rightarrow> string \<Rightarrow> connection_closure \<Rightarrow> hres" where
  "fmt_log_id_message cfg ex ident c = fmt_server_message cfg ex c (TYPE_LOG_ID ident)"

definition fmt_error_message :: "config \<Rightarrow> extern \<Rightarrow> string \<Rightarrow> connection_closure \<Rightarrow> hres" where
  "fmt_error_message cfg ex es c = fmt_server_message cfg ex c (TYPE_ERROR es)"

text \<open>
  \<^verbatim>\<open>schedule_error_message\<close>: nothing is done without an error string, in state
  \<^verbatim>\<open>ERROR\<close> or without a write event. Otherwise the state becomes \<^verbatim>\<open>ERROR\<close> whether or
  not the reply can be sent, the reply is appended to the write queue and the write
  event is added.
\<close>

definition schedule_error_message :: "config \<Rightarrow> extern \<Rightarrow> string option \<Rightarrow> connection_closure \<Rightarrow> hres" where
  "schedule_error_message cfg ex es c =
     (case (es, write_ev c) of
        (Some s, Some wev) \<Rightarrow>
          if state c = ERROR then Inr (False, c)
          else
            (case fmt_error_message cfg ex s (c\<lparr>state := ERROR\<rparr>) of
               Inl f \<Rightarrow> Inl f
             | Inr (False, c1) \<Rightarrow> Inr (False, c1)
             | Inr (True, c1) \<Rightarrow>
                 (case sudo_ev_add (ev_add_ok ex) wev (server_timeout cfg) of
                    None \<Rightarrow> Inr (False, c1)
                  | Some wev' \<Rightarrow> Inr (True, c1\<lparr>write_ev := Some wev'\<rparr>)))
      | _ \<Rightarrow> Inr (False, c))"

subsection \<open>The message switch and the local sink\<close>

text \<open>
  \<^verbatim>\<open>struct client_message_switch\<close>: the table of eight sink functions behind
  \<^verbatim>\<open>closure->cms\<close>. Each receives the unpacked message, the packed bytes and the closure.
  The handlers below take the table as their argument \<open>sw\<close>.
\<close>

record client_message_switch =
  accept :: "AcceptMessage \<Rightarrow> byte list \<Rightarrow> connection_closure \<Rightarrow> hres"
  reject :: "RejectMessage \<Rightarrow> byte list \<Rightarrow> connection_closure \<Rightarrow> hres"
  exit :: "ExitMessage \<Rightarrow> byte list \<Rightarrow> connection_closure \<Rightarrow> hres"
  restart :: "RestartMessage \<Rightarrow> byte list \<Rightarrow> connection_closure \<Rightarrow> hres"
  alert :: "AlertMessage \<Rightarrow> byte list \<Rightarrow> connection_closure \<Rightarrow> hres"
  iobuf :: "iofd \<Rightarrow> IoBuffer \<Rightarrow> byte list \<Rightarrow> connection_closure \<Rightarrow> hres"
  suspend :: "CommandSuspend \<Rightarrow> byte list \<Rightarrow> connection_closure \<Rightarrow> hres"
  winsize :: "ChangeWindowSize \<Rightarrow> byte list \<Rightarrow> connection_closure \<Rightarrow> hres"

text \<open>
  Modelled from the spec: \<^verbatim>\<open>evlog_new\<close>, \<^verbatim>\<open>iolog_init\<close>, \<^verbatim>\<open>iolog_restart\<close>,
  \<^verbatim>\<open>store_iobuf\<close>, \<^verbatim>\<open>store_winsize\<close> and \<^verbatim>\<open>store_suspend\<close> belong to the I/O log
  writer, which is not under src/. \<^verbatim>\<open>evlog_new\<close> constructs the event log record from
  the submit time and the info list. \<^verbatim>\<open>iolog_init\<close> creates the I/O log directory and
  opens its files; the path of the I/O log is then in the event log record. The others
  write to the I/O log and report success. What the writer keeps for itself in the
  closure (its open files, the elapsed time) is not modelled.
\<close>

definition evlog_new ::
  "extern \<Rightarrow> timespec option \<Rightarrow> InfoMessage list \<Rightarrow> connection_closure \<Rightarrow> eventlog option"
where
  "evlog_new ex submit infos c = evlog_new_r ex"

definition iolog_init :: "extern \<Rightarrow> AcceptMessage \<Rightarrow> connection_closure \<Rightarrow> bool \<times> connection_closure" where
  "iolog_init ex msg c =
     (case iolog_init_r ex of
        None \<Rightarrow> (False, c)
      | Some p \<Rightarrow> (True, c\<lparr>evlog := map_option (\<lambda>e. e\<lparr>iolog_path := Some p\<rparr>) (evlog c)\<rparr>))"

definition iolog_restart :: "extern \<Rightarrow> RestartMessage \<Rightarrow> connection_closure \<Rightarrow> bool" where
  "iolog_restart ex msg c = iolog_restart_ok ex"

definition store_iobuf :: "extern \<Rightarrow> iofd \<Rightarrow> IoBuffer \<Rightarrow> connection_closure \<Rightarrow> bool" where
  "store_iobuf ex fd iob c = store_iobuf_ok ex"

definition store_winsize :: "extern \<Rightarrow> ChangeWindowSize \<Rightarrow> connection_closure \<Rightarrow> bool" where
  "store_winsize ex msg c = store_winsize_ok ex"

definition store_suspend :: "extern \<Rightarrow> CommandSuspend \<Rightarrow> connection_closure \<Rightarrow> bool" where
  "store_suspend ex msg c = store_suspend_ok ex"

text \<open>
  \<^verbatim>\<open>store_accept_local\<close>. \<open>rest\<close> stands for the statements after the
  \<^verbatim>\<open>if (msg->expect_iobufs)\<close> block, with the value that \<^verbatim>\<open>log_id\<close> has there.
\<close>

definition store_accept_local ::
  "config \<Rightarrow> extern \<Rightarrow> AcceptMessage \<Rightarrow> byte list \<Rightarrow> connection_closure \<Rightarrow> hres"
where
  "store_accept_local cfg ex msg buf c =
     (let rest = (\<lambda>c2 ident_opt.
            if \<not> eventlog_accept_ok ex
            then Inr (False, c2\<lparr>errstr := Some ''error logging accept event''\<rparr>)
            else
              (case ident_opt of
                 None \<Rightarrow> Inr (True, c2)
               | Some ident \<Rightarrow>
                   (case fmt_log_id_message cfg ex ident c2 of
                      Inl f \<Rightarrow> Inl f
                    | Inr (False, c3) \<Rightarrow> Inr (False, c3)
                    | Inr (True, c3) \<Rightarrow>
                        (case write_ev c3 of
                           None \<Rightarrow> Inl Null_deref
                         | Some wev \<Rightarrow>
                             (case sudo_ev_add (ev_add_ok ex) wev (server_timeout cfg) of
                                None \<Rightarrow> Inr (False, c3)
                              | Some wev' \<Rightarrow> Inr (True, c3\<lparr>write_ev := Some wev'\<rparr>))))));
          c1 = c\<lparr>evlog := evlog_new ex (submit_time msg) (info_msgs msg) c\<rparr>
      in
        if evlog c1 = None
        then Inr (False, c1\<lparr>errstr := Some ''error parsing AcceptMessage''\<rparr>)
        else if expect_iobufs msg then
          (case iolog_init ex msg c1 of
             (False, c2) \<Rightarrow> Inr (False, c2\<lparr>errstr := Some ''error creating I/O log''\<rparr>)
           | (True, c2) \<Rightarrow>
               (case evlog c2 of
                  None \<Rightarrow> Inl Null_deref
                | Some e \<Rightarrow> rest (c2\<lparr>log_io := True\<rparr>) (iolog_path e)))
        else rest c1 None)"

definition store_reject_local ::
  "extern \<Rightarrow> RejectMessage \<Rightarrow> byte list \<Rightarrow> connection_closure \<Rightarrow> hres"
where
  "store_reject_local ex msg buf c =
     (let c1 = c\<lparr>evlog := evlog_new ex (rej_submit_time msg) (rej_info_msgs msg) c\<rparr> in
      if evlog c1 = None
      then Inr (False, c1\<lparr>errstr := Some ''error parsing RejectMessage''\<rparr>)
      else if \<not> eventlog_reject_ok ex
      then Inr (False, c1\<lparr>errstr := Some ''error logging reject event''\<rparr>)
      else Inr (True, c1))"

text \<open>
  \<^verbatim>\<open>store_exit_local\<close> clears the write bits of the timing file when I/O is logged; a
  failure of that is only logged. The closure is not changed.
\<close>

definition store_exit_local ::
  "ExitMessage \<Rightarrow> byte list \<Rightarrow> connection_closure \<Rightarrow> hres"
where
  "store_exit_local msg buf c = Inr (True, c)"

definition store_restart_local ::
  "extern \<Rightarrow> RestartMessage \<Rightarrow> byte list \<Rightarrow> connection_closure \<Rightarrow> hres"
where
  "store_restart_local ex msg buf c = Inr (iolog_restart ex msg c, c)"

definition store_alert_local ::
  "extern \<Rightarrow> AlertMessage \<Rightarrow> byte list \<Rightarrow> connection_closure \<Rightarrow> hres"
where
  "store_alert_local ex msg buf c =
     (let c1 = (if alert_info_msgs msg \<noteq> []
                then c\<lparr>evlog := evlog_new ex None (alert_info_msgs msg) c\<rparr> else c) in
      if alert_info_msgs msg \<noteq> [] \<and> evlog c1 = None
      then Inr (False, c1\<lparr>errstr := Some ''error parsing AlertMessage''\<rparr>)
      else if \<not> eventlog_alert_ok ex
      then Inr (False, c1\<lparr>errstr := Some ''error logging alert event''\<rparr>)
      else Inr (True, c1))"

definition store_iobuf_local ::
  "extern \<Rightarrow> iofd \<Rightarrow> IoBuffer \<Rightarrow> byte list \<Rightarrow> connection_closure \<Rightarrow> hres"
where
  "store_iobuf_local ex fd iob buf c =
     (if \<not> store_iobuf ex fd iob c
      then Inr (False, c\<lparr>errstr := Some ''error writing IoBuffer''\<rparr>)
      else if random_dropped ex then Inr (False, c)
      else Inr (True, c))"

definition store_winsize_local ::
  "extern \<Rightarrow> ChangeWindowSize \<Rightarrow> byte list \<Rightarrow> connection_closure \<Rightarrow> hres"
where
  "store_winsize_local ex msg buf c =
     (if \<not> store_winsize ex msg c
      then Inr (False, c\<lparr>errstr := Some ''error writing ChangeWindowSize''\<rparr>)
      else Inr (True, c))"

definition store_suspend_local ::
  "extern \<Rightarrow> CommandSuspend \<Rightarrow> byte list \<Rightarrow> connection_closure \<Rightarrow> hres"
where
  "store_suspend_local ex msg buf c =
     (if \<not> store_suspend ex msg c
      then Inr (False, c\<lparr>errstr := Some ''error writing CommandSuspend''\<rparr>)
      else Inr (True, c))"

text \<open>The table \<^verbatim>\<open>cms_local\<close> at the end of the source file.\<close>

definition cms_local :: "config \<Rightarrow> extern \<Rightarrow> client_message_switch" where
  "cms_local cfg ex =
     \<lparr>accept = store_accept_local cfg ex,
      reject = store_reject_local ex,
      exit = store_exit_local,
      restart = store_restart_local ex,
      alert = store_alert_local ex,
      iobuf = store_iobuf_local ex,
      suspend = store_suspend_local ex,
      winsize = store_winsize_local ex\<rparr>"

subsection \<open>The message handlers\<close>

definition handle_accept ::
  "client_message_switch \<Rightarrow> AcceptMessage \<Rightarrow> byte list \<Rightarrow> connection_closure \<Rightarrow> hres"
where
  "handle_accept sw msg buf c =
     (if state c \<noteq> INITIAL
      then Inr (False, c\<lparr>errstr := Some ''state machine error''\<rparr>)
      else if submit_time msg = None \<or> length (info_msgs msg) = 0
      then Inr (False, c\<lparr>errstr := Some ''invalid AcceptMessage''\<rparr>)
      else
        (case accept sw msg buf c of
           Inl f \<Rightarrow> Inl f
         | Inr (False, c1) \<Rightarrow> Inr (False, c1)
         | Inr (True, c1) \<Rightarrow>
             Inr (True, (if expect_iobufs msg then c1\<lparr>log_io := True\<rparr> else c1)\<lparr>state := RUNNING\<rparr>)))"

definition handle_reject ::
  "client_message_switch \<Rightarrow> RejectMessage \<Rightarrow> byte list \<Rightarrow> connection_closure \<Rightarrow> hres"
where
  "handle_reject sw msg buf c =
     (if state c \<noteq> INITIAL
      then Inr (False, c\<lparr>errstr := Some ''state machine error''\<rparr>)
      else if rej_submit_time msg = None \<or> length (rej_info_msgs msg) = 0
      then Inr (False, c\<lparr>errstr := Some ''invalid RejectMessage''\<rparr>)
      else
        (case reject sw msg buf c of
           Inl f \<Rightarrow> Inl f
         | Inr (False, c1) \<Rightarrow> Inr (False, c1)
         | Inr (True, c1) \<Rightarrow> Inr (True, c1\<lparr>state := FINISHED\<rparr>)))"

text \<open>
  \<^verbatim>\<open>handle_exit\<close>. After a successful sink call the state becomes \<^verbatim>\<open>EXITED\<close> when I/O
  is logged, and the commit event is then added with a zero timeout unless a relay is
  attached; otherwise the state becomes \<^verbatim>\<open>FINISHED\<close>. The read event is deleted on every
  path that reaches the sink.
\<close>

definition handle_exit ::
  "extern \<Rightarrow> client_message_switch \<Rightarrow> ExitMessage \<Rightarrow> byte list \<Rightarrow> connection_closure \<Rightarrow> hres"
where
  "handle_exit ex sw msg buf c =
     (if state c \<noteq> RUNNING
      then Inr (False, c\<lparr>errstr := Some ''state machine error''\<rparr>)
      else
        (case exit sw msg buf c of
           Inl f \<Rightarrow> Inl f
         | Inr (False, c1) \<Rightarrow> Inr (False, c1\<lparr>read_ev := sudo_ev_del (read_ev c1)\<rparr>)
         | Inr (True, c1) \<Rightarrow>
             if log_io c1 then
               (let c2 = c1\<lparr>state := EXITED\<rparr> in
                if relay_closure c2 = None then
                  (case commit_ev c2 of
                     None \<Rightarrow> Inl Null_deref
                   | Some ev \<Rightarrow>
                       (case sudo_ev_add (ev_add_ok ex) ev (Some (0, 0)) of
                          None \<Rightarrow> Inr (False, c2\<lparr>read_ev := sudo_ev_del (read_ev c2)\<rparr>)
                        | Some ev' \<Rightarrow>
                            Inr (True, c2\<lparr>commit_ev := Some ev',
                                          read_ev := sudo_ev_del (read_ev c2)\<rparr>)))
                else Inr (True, c2\<lparr>read_ev := sudo_ev_del (read_ev c2)\<rparr>))
             else
               (let c2 = c1\<lparr>state := FINISHED\<rparr> in
                Inr (True, c2\<lparr>read_ev := sudo_ev_del (read_ev c2)\<rparr>))))"

definition handle_restart ::
  "config \<Rightarrow> extern \<Rightarrow> client_message_switch \<Rightarrow> RestartMessage \<Rightarrow> byte list \<Rightarrow>
   connection_closure \<Rightarrow> hres"
where
  "handle_restart cfg ex sw msg buf c =
     (if state c \<noteq> INITIAL
      then Inr (False, c\<lparr>errstr := Some ''state machine error''\<rparr>)
      else
        (case restart sw msg buf c of
           Inl f \<Rightarrow> Inl f
         | Inr (True, c1) \<Rightarrow> Inr (True, c1\<lparr>state := RUNNING\<rparr>)
         | Inr (False, c1) \<Rightarrow>
             (let c2 = c1\<lparr>read_ev := sudo_ev_del (read_ev c1)\<rparr> in
              case schedule_error_message cfg ex (errstr c2) c2 of
                Inl f \<Rightarrow> Inl f
              | Inr (sent, c3) \<Rightarrow> Inr (False, c3))))"

definition handle_alert ::
  "client_message_switch \<Rightarrow> AlertMessage \<Rightarrow> byte list \<Rightarrow> connection_closure \<Rightarrow> hres"
where
  "handle_alert sw msg buf c =
     (if alert_time msg = None \<or> alert_reason msg = None
      then Inr (False, c\<lparr>errstr := Some ''invalid AlertMessage''\<rparr>)
      else alert sw msg buf c)"

text \<open>
  \<^verbatim>\<open>enable_commit\<close>: add the commit event with the \<^verbatim>\<open>ACK_FREQUENCY\<close> timeout if no relay
  is attached and the event is not in the queue yet.
\<close>

definition enable_commit :: "config \<Rightarrow> extern \<Rightarrow> connection_closure \<Rightarrow> hres" where
  "enable_commit cfg ex c =
     (if relay_closure c = None then
        (case commit_ev c of
           None \<Rightarrow> Inl Null_deref
         | Some ev \<Rightarrow>
             if \<not> inserted ev then
               (case sudo_ev_add (ev_add_ok ex) ev (Some (ACK_FREQUENCY cfg, 0)) of
                  None \<Rightarrow> Inr (False, c)
                | Some ev' \<Rightarrow> Inr (True, c\<lparr>commit_ev := Some ev'\<rparr>))
             else Inr (True, c))
      else Inr (True, c))"

definition handle_iobuf ::
  "config \<Rightarrow> extern \<Rightarrow> client_message_switch \<Rightarrow> iofd \<Rightarrow> IoBuffer \<Rightarrow> byte list \<Rightarrow>
   connection_closure \<Rightarrow> hres"
where
  "handle_iobuf cfg ex sw fd iob buf c =
     (if state c \<noteq> RUNNING
      then Inr (False, c\<lparr>errstr := Some ''state machine error''\<rparr>)
      else if \<not> log_io c
      then Inr (False, c\<lparr>errstr := Some ''protocol error''\<rparr>)
      else
        (case iobuf sw fd iob buf c of
           Inl f \<Rightarrow> Inl f
         | Inr (False, c1) \<Rightarrow> Inr (False, c1)
         | Inr (True, c1) \<Rightarrow>
             (case enable_commit cfg ex c1 of
                Inl f \<Rightarrow> Inl f
              | Inr (False, c2) \<Rightarrow> Inr (False, c2)
              | Inr (True, c2) \<Rightarrow> Inr (True, c2))))"

definition handle_winsize ::
  "config \<Rightarrow> extern \<Rightarrow> client_message_switch \<Rightarrow> ChangeWindowSize \<Rightarrow> byte list \<Rightarrow>
   connection_closure \<Rightarrow> hres"
where
  "handle_winsize cfg ex sw msg buf c =
     (if state c \<noteq> RUNNING
      then Inr (False, c\<lparr>errstr := Some ''state machine error''\<rparr>)
      else if \<not> log_io c
      then Inr (False, c\<lparr>errstr := Some ''protocol error''\<rparr>)
      else
        (case winsize sw msg buf c of
           Inl f \<Rightarrow> Inl f
         | Inr (False, c1) \<Rightarrow> Inr (False, c1)
         | Inr (True, c1) \<Rightarrow>
             (case enable_commit cfg ex c1 of
                Inl f \<Rightarrow> Inl f
              | Inr (False, c2) \<Rightarrow> Inr (False, c2)
              | Inr (True, c2) \<Rightarrow> Inr (True, c2))))"

definition handle_suspend ::
  "config \<Rightarrow> extern \<Rightarrow> client_message_switch \<Rightarrow> CommandSuspend \<Rightarrow> byte list \<Rightarrow>
   connection_closure \<Rightarrow> hres"
where
  "handle_suspend cfg ex sw msg buf c =
     (if state c \<noteq> RUNNING
      then Inr (False, c\<lparr>errstr := Some ''state machine error''\<rparr>)
      else if \<not> log_io c
      then Inr (False, c\<lparr>errstr := Some ''protocol error''\<rparr>)
      else
        (case suspend sw msg buf c of
           Inl f \<Rightarrow> Inl f
         | Inr (False, c1) \<Rightarrow> Inr (False, c1)
         | Inr (True, c1) \<Rightarrow>
             (case enable_commit cfg ex c1 of
                Inl f \<Rightarrow> Inl f
              | Inr (False, c2) \<Rightarrow> Inr (False, c2)
              | Inr (True, c2) \<Rightarrow> Inr (True, c2))))"

definition handle_client_hello :: "ClientHello \<Rightarrow> byte list \<Rightarrow> connection_closure \<Rightarrow> hres" where
  "handle_client_hello msg buf c =
     (if state c \<noteq> INITIAL
      then Inr (False, c\<lparr>errstr := Some ''state machine error''\<rparr>)
      else Inr (True, c))"

text \<open>\<^verbatim>\<open>handle_client_message\<close>: unpack the record and dispatch on its \<^verbatim>\<open>type_case\<close>.\<close>

definition handle_client_message ::
  "config \<Rightarrow> extern \<Rightarrow> client_message_switch \<Rightarrow> byte list \<Rightarrow> connection_closure \<Rightarrow> hres"
where
  "handle_client_message cfg ex sw buf c =
     (case unpack ex buf of
        None \<Rightarrow> Inr (False, c)
      | Some msg \<Rightarrow>
          (case msg of
             TYPE_ACCEPT_MSG m \<Rightarrow> handle_accept sw m buf c
           | TYPE_REJECT_MSG m \<Rightarrow> handle_reject sw m buf c
           | TYPE_EXIT_MSG m \<Rightarrow> handle_exit ex sw m buf c
           | TYPE_RESTART_MSG m \<Rightarrow> handle_restart cfg ex sw m buf c
           | TYPE_ALERT_MSG m \<Rightarrow> handle_alert sw m buf c
           | TYPE_TTYIN_BUF m \<Rightarrow> handle_iobuf cfg ex sw IOFD_TTYIN m buf c
           | TYPE_TTYOUT_BUF m \<Rightarrow> handle_iobuf cfg ex sw IOFD_TTYOUT m buf c
           | TYPE_STDIN_BUF m \<Rightarrow> handle_iobuf cfg ex sw IOFD_STDIN m buf c
           | TYPE_STDOUT_BUF m \<Rightarrow> handle_iobuf cfg ex sw IOFD_STDOUT m buf c
           | TYPE_STDERR_BUF m \<Rightarrow> handle_iobuf cfg ex sw IOFD_STDERR m buf c
           | TYPE_WINSIZE_EVENT m \<Rightarrow> handle_winsize cfg ex sw m buf c
           | TYPE_SUSPEND_EVENT m \<Rightarrow> handle_suspend cfg ex sw m buf c
           | TYPE_HELLO_MSG m \<Rightarrow> handle_client_hello m buf c
           | TYPE_NOT_SET \<Rightarrow> Inr (False, c\<lparr>errstr := Some ''unrecognized ClientMessage type''\<rparr>)))"

subsection \<open>The read callback and its decode loop\<close>

text \<open>
  How a run of an event callback ends: it returns, it calls \<^verbatim>\<open>connection_close\<close> on the
  closure, it hands over to \<^verbatim>\<open>server_msg_cb\<close> (a TLS write that waited for the socket to
  become readable) or to \<^verbatim>\<open>relay_shutdown\<close>, or it faults.
\<close>

datatype cb_result =
    Return connection_closure
  | Close connection_closure
  | Server_msg_cb connection_closure
  | Relay_shutdown connection_closure
  | Crash fault

datatype ev_what = SUDO_EV_READ | SUDO_EV_WRITE | SUDO_EV_TIMEOUT

text \<open>What \<^verbatim>\<open>read\<close> returns: some bytes, 0, or -1 with \<^verbatim>\<open>EAGAIN\<close> or another error.\<close>

datatype read_result = READ_N "byte list" | READ_0 | READ_EAGAIN | READ_ERR

text \<open>What \<^verbatim>\<open>SSL_read\<close> returns: some bytes, or the error that \<^verbatim>\<open>SSL_get_error\<close> reports.\<close>

datatype ssl_read_result =
    SSL_N "byte list"
  | SSL_ERROR_ZERO_RETURN
  | SSL_ERROR_WANT_READ
  | SSL_ERROR_WANT_WRITE
  | SSL_ERROR_SYSCALL
  | SSL_ERROR_OTHER

text \<open>The label \<^verbatim>\<open>send_error\<close> of \<^verbatim>\<open>client_msg_cb\<close>.\<close>

definition send_error :: "config \<Rightarrow> extern \<Rightarrow> connection_closure \<Rightarrow> cb_result" where
  "send_error cfg ex c =
     (let c1 = c\<lparr>read_ev := sudo_ev_del (read_ev c)\<rparr> in
      case schedule_error_message cfg ex (errstr c1) c1 of
        Inl f \<Rightarrow> Crash f
      | Inr (False, c2) \<Rightarrow> Close c2
      | Inr (True, c2) \<Rightarrow> Return c2)"

text \<open>The four bytes at an offset of a storage area, as \<^verbatim>\<open>ntohl\<close> reads them.\<close>

definition load32 :: "byte list \<Rightarrow> nat \<Rightarrow> uint32 option" where
  "load32 mem at =
     (if at + 4 \<le> length mem
      then Some (rd32 (mem ! at) (mem ! (at + 1)) (mem ! (at + 2)) (mem ! (at + 3)))
      else None)"

text \<open>
  The \<^verbatim>\<open>while\<close> loop of \<^verbatim>\<open>client_msg_cb\<close> and the statements after it. \<open>h\<close> is
  \<^verbatim>\<open>handle_client_message\<close> with its sink. No handler of logsrvd.c writes to
  \<^verbatim>\<open>closure->read_buf\<close>, so the loop goes on with the buffer that it had. The comparisons
  are made in \<^verbatim>\<open>size_t\<close>, the subtraction \<^verbatim>\<open>len - off\<close> in \<^verbatim>\<open>unsigned int\<close>.
\<close>

function client_msg_cb_loop ::
  "config \<Rightarrow> extern \<Rightarrow> (byte list \<Rightarrow> connection_closure \<Rightarrow> hres) \<Rightarrow> connection_closure \<Rightarrow> cb_result"
where
  "client_msg_cb_loop cfg ex h c =
     (let buf = read_buf c in
      if 4 \<le> unat (len buf - off buf) then
        (case load32 (data buf) (unat (off buf)) of
           None \<Rightarrow> Crash Out_of_bounds
         | Some msg_len \<Rightarrow>
             if unat msg_len > MESSAGE_SIZE_MAX cfg
             then send_error cfg ex (c\<lparr>errstr := Some ''client message too large''\<rparr>)
             else if unat msg_len + 4 > unat (len buf - off buf) then
               (case expand_buf ex buf (unat msg_len + 4) of
                  None \<Rightarrow> send_error cfg ex (c\<lparr>errstr := Some ''unable to allocate memory''\<rparr>)
                | Some buf' \<Rightarrow> Return (c\<lparr>read_buf := buf'\<rparr>))
             else
               (case load (data buf) (unat (off buf + 4)) (unat msg_len) of
                  None \<Rightarrow> Crash Out_of_bounds
                | Some m \<Rightarrow>
                    (case h m (c\<lparr>read_buf := buf\<lparr>off := off buf + 4\<rparr>\<rparr>) of
                       Inl f \<Rightarrow> Crash f
                     | Inr (False, c1) \<Rightarrow>
                         send_error cfg ex (c1\<lparr>errstr := Some ''invalid ClientMessage''\<rparr>)
                     | Inr (True, c1) \<Rightarrow>
                         client_msg_cb_loop cfg ex h
                           (c1\<lparr>read_buf := buf\<lparr>off := off buf + 4 + msg_len\<rparr>\<rparr>))))
      else
        (let c1 = c\<lparr>read_buf := buf\<lparr>len := len buf - off buf, off := 0\<rparr>\<rparr> in
         if state c1 = FINISHED then Close c1 else Return c1))"
  by pat_completeness auto
termination
proof (relation "measure (\<lambda>(cfg, ex, h, c). unat (len (read_buf c) - off (read_buf c)))")
  show "wf (measure (\<lambda>(cfg, ex, h, c). unat (len (read_buf c) - off (read_buf c))))"
    by simp
next
  fix cfg :: config and ex :: extern and h :: "byte list \<Rightarrow> connection_closure \<Rightarrow> hres"
    and c :: connection_closure and buf msg_len m r rb ok c1
  assume b: "buf = read_buf c"
    and ge: "4 \<le> unat (len buf - off buf)"
    and fit: "\<not> unat (len buf - off buf) < unat (msg_len :: uint32) + 4"
  have le: "unat msg_len + 4 \<le> unat (len buf - off buf)"
    using fit by simp
  have lt: "unat msg_len + 4 < 2 ^ 32"
    using le unsigned_less [of "len buf - off buf", where 'a = nat] by simp
  have u: "unat (4 + msg_len) = 4 + unat msg_len"
    using lt by (simp add: unat_word_ariths)
  have w: "4 + msg_len \<le> len buf - off buf"
    using le u by (simp add: word_le_nat_alt)
  have e: "len buf - (off buf + 4 + msg_len) = (len buf - off buf) - (4 + msg_len)"
    by simp
  have "unat ((len buf - off buf) - (4 + msg_len)) = unat (len buf - off buf) - unat (4 + msg_len)"
    using w by (rule unat_sub)
  then have "unat (len buf - (off buf + 4 + msg_len)) = unat (len buf - off buf) - (4 + unat msg_len)"
    unfolding e u .
  then show "((cfg, ex, h, c1\<lparr>read_buf := buf\<lparr>off := off buf + 4 + msg_len\<rparr>\<rparr>), cfg, ex, h, c)
      \<in> measure (\<lambda>(cfg, ex, h, c). unat (len (read_buf c) - off (read_buf c)))"
    using le b by simp
qed

text \<open>
  The number of bytes that \<^verbatim>\<open>client_msg_cb\<close> asks the transport for, the third argument
  of \<^verbatim>\<open>SSL_read\<close> and of \<^verbatim>\<open>read\<close>. Both calls store at \<^verbatim>\<open>buf->data + buf->len\<close>.
\<close>

definition nbytes_requested :: "connection_closure \<Rightarrow> nat" where
  "nbytes_requested c =
     (let buf = read_buf c in
      if ssl c \<noteq> None then unat (size_buf buf) else unat (size_buf buf - len buf))"

text \<open>
  \<^verbatim>\<open>client_msg_cb\<close>. \<open>srd\<close> and \<open>rd\<close> say what \<^verbatim>\<open>SSL_read\<close> and \<^verbatim>\<open>read\<close> return when
  asked for a number of bytes. The bytes received are stored at offset \<^verbatim>\<open>len\<close> of the
  storage; bytes that do not fit there are written past its end in C, which is the
  fault \<^verbatim>\<open>Out_of_bounds\<close> here. \<^verbatim>\<open>sudo_ev_pending\<close> reads whether the event is in the
  queue.
\<close>

definition client_msg_cb ::
  "config \<Rightarrow> extern \<Rightarrow> (byte list \<Rightarrow> connection_closure \<Rightarrow> hres) \<Rightarrow> ev_what \<Rightarrow>
   (nat \<Rightarrow> ssl_read_result) \<Rightarrow> (nat \<Rightarrow> read_result) \<Rightarrow> connection_closure \<Rightarrow> cb_result"
where
  "client_msg_cb cfg ex h what srd rd c =
     (let buf = read_buf c;
          received = (\<lambda>xs.
            case store (data buf) (unat (len buf)) xs of
              None \<Rightarrow> Crash Out_of_bounds
            | Some d \<Rightarrow>
                client_msg_cb_loop cfg ex h
                  (c\<lparr>read_buf := buf\<lparr>data := d, len := len buf + of_nat (length xs)\<rparr>\<rparr>))
      in
        if write_instead_of_read c then Server_msg_cb (c\<lparr>write_instead_of_read := False\<rparr>)
        else if what = SUDO_EV_TIMEOUT then Close c
        else if ssl c \<noteq> None then
          (case srd (nbytes_requested c) of
             SSL_N xs \<Rightarrow> received xs
           | SSL_ERROR_ZERO_RETURN \<Rightarrow> Close c
           | SSL_ERROR_WANT_READ \<Rightarrow> Return c
           | SSL_ERROR_WANT_WRITE \<Rightarrow>
               (case write_ev c of
                  None \<Rightarrow> Crash Null_deref
                | Some wev \<Rightarrow>
                    if \<not> inserted wev then
                      (case sudo_ev_add (ev_add_ok ex) wev (server_timeout cfg) of
                         None \<Rightarrow> send_error cfg ex (c\<lparr>errstr := Some ''unable to allocate memory''\<rparr>)
                       | Some wev' \<Rightarrow>
                           Return (c\<lparr>write_ev := Some wev', temporary_write_event := True,
                                     read_instead_of_write := True\<rparr>))
                    else Return (c\<lparr>read_instead_of_write := True\<rparr>))
           | SSL_ERROR_SYSCALL \<Rightarrow> Close c
           | SSL_ERROR_OTHER \<Rightarrow> Close c)
        else
          (case rd (nbytes_requested c) of
             READ_N xs \<Rightarrow> received xs
           | READ_0 \<Rightarrow> Close c
           | READ_EAGAIN \<Rightarrow> Return c
           | READ_ERR \<Rightarrow> Close c))"

subsection \<open>Shutdown, allocation and close\<close>

text \<open>
  \<^verbatim>\<open>server_shutdown\<close>, for each connection of the list: the state becomes \<^verbatim>\<open>SHUTDOWN\<close>,
  the read event is deleted, and then the relay is shut down, or a final commit point is
  scheduled (a failure to add the event is only logged), or the connection is closed.
  The global shutdown timer and the loop break are not part of a connection.
\<close>

definition server_shutdown :: "extern \<Rightarrow> connection_closure list \<Rightarrow> cb_result list" where
  "server_shutdown ex conns =
     map (\<lambda>c.
       let c1 = c\<lparr>state := SHUTDOWN, read_ev := sudo_ev_del (read_ev c)\<rparr> in
       if relay_closure c1 \<noteq> None then Relay_shutdown c1
       else if log_io c1 then
         (case commit_ev c1 of
            None \<Rightarrow> Crash Null_deref
          | Some ev \<Rightarrow>
              (case sudo_ev_add (ev_add_ok ex) ev (Some (0, 0)) of
                 None \<Rightarrow> Return c1
               | Some ev' \<Rightarrow> Return (c1\<lparr>commit_ev := Some ev'\<rparr>)))
       else Close c1) conns"

text \<open>What closing a connection does to files and sockets, in the order of the calls.\<close>

datatype sys_effect =
    Unlink string
  | Fclose file_handle
  | Close_fd int
  | Relay_closure_free relay_client_closure

text \<open>
  \<^verbatim>\<open>connection_closure_free\<close>: the relay closure is freed, the socket closed and the
  journal file closed if the closure still has one. Freeing memory and events leaves
  no trace here.
\<close>

definition connection_closure_free :: "connection_closure \<Rightarrow> sys_effect list" where
  "connection_closure_free c =
     (case relay_closure c of None \<Rightarrow> [] | Some r \<Rightarrow> [Relay_closure_free r])
     @ [Close_fd (sock c)]
     @ (case journal c of None \<Rightarrow> [] | Some j \<Rightarrow> [Fclose j])"

text \<open>
  \<^verbatim>\<open>connection_closure_alloc\<close> (built with TLS support). The result is what was done to
  files and sockets and the new closure, if there is one. When \<^verbatim>\<open>calloc\<close> fails nothing
  has been done. Otherwise the closure comes zeroed from \<^verbatim>\<open>calloc\<close> (the state of a new
  connection is \<^verbatim>\<open>INITIAL\<close>) and gets its socket, its message switch and the size of its
  read buffer; when \<^verbatim>\<open>malloc\<close> or a \<^verbatim>\<open>sudo_ev_alloc\<close> fails after that, the label \<^verbatim>\<open>bad\<close>
  runs \<^verbatim>\<open>connection_closure_free\<close> on the closure as far as it was built, which closes
  \<^verbatim>\<open>closure->sock\<close> (-1 for a relay-only closure), and \<^verbatim>\<open>NULL\<close> is returned.
\<close>

definition connection_closure_alloc ::
  "config \<Rightarrow> extern \<Rightarrow> int \<Rightarrow> bool \<Rightarrow> bool \<Rightarrow> sys_effect list \<times> connection_closure option"
where
  "connection_closure_alloc cfg ex fd tls relay_only =
     (if \<not> calloc_ok ex then ([], None)
      else
        let c0 =
          \<lparr>state = INITIAL, errstr = None, log_io = False,
           store_first = (\<not> relay_only \<and> relay_store_first cfg),
           read_instead_of_write = False, write_instead_of_read = False,
           temporary_write_event = False,
           relay_closure = None, journal = None, journal_path = None,
           sock = (if relay_only then - 1 else fd), iolog_dir_fd = - 1,
           ssl = None, evlog = None, elapsed_time = (0, 0),
           read_buf = \<lparr>data = [], size_buf = 64 * 1024, len = 0, off = 0\<rparr>,
           write_bufs = [], free_bufs = [],
           read_ev = \<lparr>inserted = False, timeo = None\<rparr>,
           write_ev = None, commit_ev = None, ssl_accept_ev = None,
           cms = (if relay_only then CMS_RELAY
                  else if relay_store_first cfg then CMS_JOURNAL else CMS_LOCAL),
           ipaddr = []\<rparr>
        in
          if \<not> malloc_ok ex then (connection_closure_free c0, None)
          else
            let c1 = c0\<lparr>read_buf := (read_buf c0)\<lparr>data := replicate (64 * 1024) 0\<rparr>\<rparr> in
              if \<not> ev_alloc_ok ex then (connection_closure_free c1, None)
              else
                ([], Some (c1
                  \<lparr>write_ev := (if relay_only then None
                                else Some \<lparr>inserted = False, timeo = None\<rparr>),
                   commit_ev := (if relay_only then None
                                 else Some \<lparr>inserted = False, timeo = None\<rparr>),
                   ssl_accept_ev := (if tls then Some \<lparr>inserted = False, timeo = None\<rparr>
                                     else None)\<rparr>)))"

text \<open>\<^verbatim>\<open>fileno\<close> of a journal file.\<close>

definition fileno :: "file_handle \<Rightarrow> int" where
  "fileno j = int j"

text \<open>
  \<^verbatim>\<open>connection_close\<close>. The result is what was done to files and sockets and the new
  relay connection, if one was created and \<^verbatim>\<open>connect_relay\<close> accepted it. \<open>finish\<close> stands
  for the statements after the first \<^verbatim>\<open>if\<close> block, run on the closing closure as that
  block leaves it: the journal file is unlinked if the state is \<^verbatim>\<open>FINISHED\<close> and the
  closure has a journal path, and the closure is freed.
\<close>

definition connection_close ::
  "config \<Rightarrow> extern \<Rightarrow> connection_closure \<Rightarrow> sys_effect list \<times> connection_closure option"
where
  "connection_close cfg ex c =
     (let finish = (\<lambda>c1.
            (if state c1 = FINISHED
             then (case journal_path c1 of None \<Rightarrow> [] | Some p \<Rightarrow> [Unlink p]) else [])
            @ connection_closure_free c1)
      in
        if store_first c \<and> state c = FINISHED \<and> relay_closure c = None then
          (case journal c of
             None \<Rightarrow> (finish c, None)
           | Some j \<Rightarrow>
               (case connection_closure_alloc cfg ex (fileno j) False True of
                  (es, None) \<Rightarrow> (es @ finish c, None)
                | (es, Some n) \<Rightarrow>
                    (let n1 = n\<lparr>journal := journal c, journal_path := journal_path c\<rparr>;
                         c1 = c\<lparr>journal := None, journal_path := None\<rparr>
                     in case connect_relay ex n1 of
                          (False, n2) \<Rightarrow> (es @ connection_closure_free n2 @ finish c1, None)
                        | (True, n2) \<Rightarrow> (es @ finish c1, Some n2))))
        else (finish c, None))"

subsection \<open>Concrete connections\<close>

text \<open>
  A configuration with a maximum message size in the range that the specification
  gives (hundreds of kilobytes), collaborators that succeed, and a connection as
  \<^verbatim>\<open>connection_closure_alloc\<close> returns it. The packing function writes a tag, the
  length of the string and its bytes.
\<close>

definition conf0 :: config where
  "conf0 = \<lparr>MESSAGE_SIZE_MAX = 512 * 1024, ACK_FREQUENCY = 10,
            server_timeout = Some (30, 0), relay_store_first = False\<rparr>"

definition pack0 :: "ServerMessage \<Rightarrow> byte list" where
  "pack0 m =
     (case m of
        TYPE_HELLO s \<Rightarrow> 10 # of_nat (length s) # map (\<lambda>ch. of_nat (of_char ch)) s
      | TYPE_COMMIT_POINT t \<Rightarrow> [18, 0]
      | TYPE_LOG_ID s \<Rightarrow> 26 # of_nat (length s) # map (\<lambda>ch. of_nat (of_char ch)) s
      | TYPE_ERROR s \<Rightarrow> 34 # of_nat (length s) # map (\<lambda>ch. of_nat (of_char ch)) s)"

text \<open>An unpacking function that knows one record: a \<^verbatim>\<open>ClientHello\<close> with an empty id.\<close>

definition unpack0 :: "byte list \<Rightarrow> ClientMessage option" where
  "unpack0 bs = (if bs = [106, 0] then Some (TYPE_HELLO_MSG \<lparr>client_id = []\<rparr>) else None)"

definition ext0 :: extern where
  "ext0 = \<lparr>ev_add_ok = True, calloc_ok = True, malloc_ok = True,
           packed = pack0, unpack = unpack0,
           evlog_new_r = Some \<lparr>iolog_path = None\<rparr>,
           iolog_init_r = Some ''/var/log/sudo-io/00/00/01'',
           eventlog_accept_ok = True, eventlog_reject_ok = True, eventlog_alert_ok = True,
           iolog_restart_ok = True, store_iobuf_ok = True, store_winsize_ok = True,
           store_suspend_ok = True, random_dropped = False, ev_alloc_ok = True,
           connect_relay = (\<lambda>c. (True, c\<lparr>relay_closure := Some 1\<rparr>)),
           expand_buf = (\<lambda>b n. None)\<rparr>"

text \<open>The same collaborators when memory has run out.\<close>

definition ext_nomem :: extern where
  "ext_nomem = ext0\<lparr>calloc_ok := False, malloc_ok := False, ev_alloc_ok := False\<rparr>"

text \<open>The same collaborators when \<^verbatim>\<open>calloc\<close> still succeeds and the next \<^verbatim>\<open>malloc\<close> fails.\<close>

definition ext_nobuf :: extern where
  "ext_nobuf = ext0\<lparr>malloc_ok := False\<rparr>"

text \<open>A message switch whose sinks succeed and leave the closure as it is.\<close>

definition cms_ok :: client_message_switch where
  "cms_ok =
     \<lparr>accept = (\<lambda>m b c. Inr (True, c)), reject = (\<lambda>m b c. Inr (True, c)),
      exit = (\<lambda>m b c. Inr (True, c)), restart = (\<lambda>m b c. Inr (True, c)),
      alert = (\<lambda>m b c. Inr (True, c)), iobuf = (\<lambda>fd m b c. Inr (True, c)),
      suspend = (\<lambda>m b c. Inr (True, c)), winsize = (\<lambda>m b c. Inr (True, c))\<rparr>"

definition closure0 :: connection_closure where
  "closure0 = the (snd (connection_closure_alloc conf0 ext0 5 False False))"

definition accept0 :: AcceptMessage where
  "accept0 = \<lparr>submit_time = Some (1700000000, 0),
              info_msgs = [(''user'', STRVAL ''alice''), (''command'', STRVAL ''/bin/ls'')],
              expect_iobufs = True\<rparr>"

definition reject0 :: RejectMessage where
  "reject0 = \<lparr>rej_submit_time = Some (1700000000, 0), rej_reason = ''policy denied'',
              rej_info_msgs = [(''user'', STRVAL ''alice'')]\<rparr>"

definition restart0 :: RestartMessage where
  "restart0 = \<lparr>log_id = ''/var/log/sudo-io/00/00/01'', resume_point = Some (3, 0)\<rparr>"

definition exit0 :: ExitMessage where
  "exit0 = \<lparr>exit_value = 0, dumped_core = False, signal = None\<rparr>"

definition iobuf0 :: IoBuffer where
  "iobuf0 = \<lparr>delay = Some (0, 100000000), iobuf_data = [104, 101, 108, 108, 111, 10]\<rparr>"

definition winsize0 :: ChangeWindowSize where
  "winsize0 = \<lparr>ws_delay = Some (0, 0), rows = 24, cols = 80\<rparr>"

definition suspend0 :: CommandSuspend where
  "suspend0 = \<lparr>cs_delay = Some (0, 0), cs_signal = ''TSTP''\<rparr>"

text \<open>Connections in later states, and one whose read buffer starts with the prefix 0x00100000.\<close>

definition closure_relayed :: connection_closure where
  "closure_relayed = closure0\<lparr>relay_closure := Some 1, log_io := True, state := RUNNING\<rparr>"

definition closure_logging :: connection_closure where
  "closure_logging = closure0\<lparr>log_io := True, state := RUNNING\<rparr>"

definition closure_armed :: connection_closure where
  "closure_armed = closure_logging\<lparr>commit_ev := Some \<lparr>inserted = True, timeo = Some (10, 0)\<rparr>\<rparr>"

definition closure_oversize :: connection_closure where
  "closure_oversize =
     closure0\<lparr>read_buf := \<lparr>data = [0, 16, 0, 0] @ replicate 65532 0,
                           size_buf = 65536, len = 4, off = 0\<rparr>\<rparr>"

text \<open>A handler that accepts exactly the packed record of a server hello.\<close>

definition hello_only :: "byte list \<Rightarrow> connection_closure \<Rightarrow> hres" where
  "hello_only m c = Inr (m = pack0 (TYPE_HELLO ''Sudo Audit Server''), c)"

text \<open>
  A read buffer that holds a complete frame and the start of the next one, before and
  after the decode loop and after the next read; a TLS connection before and after a
  read of two bytes; a store-first connection that has finished with its journal.
\<close>

definition closure_tail :: connection_closure where
  "closure_tail =
     closure0\<lparr>read_buf := \<lparr>data = [0, 0, 0, 2, 106, 0, 0, 0, 1] @ replicate 65527 0,
                           size_buf = 65536, len = 9, off = 0\<rparr>\<rparr>"

definition closure_tail_after :: connection_closure where
  "closure_tail_after =
     closure0\<lparr>read_buf := \<lparr>data = [0, 0, 0, 2, 106, 0, 0, 0, 1] @ replicate 65527 0,
                           size_buf = 65536, len = 3, off = 0\<rparr>\<rparr>"

definition closure_tls :: connection_closure where
  "closure_tls = closure0\<lparr>ssl := Some 1\<rparr>"

definition closure_tls_2 :: connection_closure where
  "closure_tls_2 =
     closure_tls\<lparr>read_buf := \<lparr>data = [0, 0] @ replicate 65534 0,
                              size_buf = 65536, len = 2, off = 0\<rparr>\<rparr>"

definition closure_journal :: connection_closure where
  "closure_journal =
     closure0\<lparr>store_first := True, state := FINISHED, journal := Some 7,
               journal_path := Some ''/var/log/sudo_logsrvd/incoming/journal'', cms := CMS_JOURNAL\<rparr>"

definition closure_tail_next :: connection_closure where
  "closure_tail_next =
     closure0\<lparr>read_buf := \<lparr>data = [0, 0, 0, 0, 106, 0, 0, 0, 1] @ replicate 65527 0,
                           size_buf = 65536, len = 4, off = 0\<rparr>\<rparr>"

section \<open>Properties\<close>

subsection \<open>Buffers and the encoder\<close>


lemma pow2_from_ge: "n \<le> p * 2 ^ k \<Longrightarrow> n \<le> pow2_from k p n"
  by (induction k arbitrary: p) (auto simp: algebra_simps)

lemma pow2_from_le: "j \<le> k \<Longrightarrow> n \<le> p * 2 ^ j \<Longrightarrow> pow2_from k p n \<le> p * 2 ^ j"
proof (induction k arbitrary: p j)
  case 0
  then show ?case by simp
next
  case (Suc k)
  show ?case
  proof (cases "n \<le> p")
    case True
    then show ?thesis by simp
  next
    case False
    with Suc.prems obtain i where j: "j = Suc i"
      by (cases j) auto
    have "pow2_from k (2 * p) n \<le> (2 * p) * 2 ^ i"
      using Suc.prems j by (intro Suc.IH) (auto simp: algebra_simps)
    then show ?thesis using False j by (simp add: algebra_simps)
  qed
qed

lemma unat_pow2_roundup: 
  assumes "n \<le> 2 ^ 31" shows "n \<le> unat (sudo_pow2_roundup n)"
proof -
  have a: "n \<le> pow2_from 32 1 n"
    using assms by (intro pow2_from_ge) simp
  have "pow2_from 32 1 n \<le> 1 * 2 ^ 31"
    using assms by (intro pow2_from_le) auto
  then have "pow2_from 32 1 n < 2 ^ 32" by simp
  then have "unat (of_nat (pow2_from 32 1 n) :: uint32) = pow2_from 32 1 n"
    by (simp add: unat_of_nat)
  then show ?thesis using a by (simp add: sudo_pow2_roundup_def)
qed

lemma get_free_buf_ok:
  assumes "\<forall>b \<in> set (free_bufs c). length (data b) = unat (size_buf b)"
    and "calloc_ok ex" and "malloc_ok ex" and "n \<le> 2 ^ 31"
  shows "\<exists>b fb. get_free_buf ex n c = Inr (Some b, c\<lparr>free_bufs := fb\<rparr>) \<and> n \<le> length (data b)"
proof (cases "free_bufs c")
  case Nil
  have e: "c = c\<lparr>free_bufs := []\<rparr>" using Nil by simp
  show ?thesis
  proof (cases "n = 0")
    case True
    have "get_free_buf ex n c = Inr (Some zero_buf, c)"
      using assms Nil True by (simp add: get_free_buf_def zero_buf_def)
    then have "get_free_buf ex n c = Inr (Some zero_buf, c\<lparr>free_bufs := []\<rparr>) \<and> n \<le> length (data zero_buf)"
      using e True by simp
    then show ?thesis by blast
  next
    case False
    let ?b = "zero_buf\<lparr>size_buf := sudo_pow2_roundup n,
                       data := replicate (unat (sudo_pow2_roundup n)) 0\<rparr>"
    have "get_free_buf ex n c = Inr (Some ?b, c)"
      using assms Nil False by (simp add: get_free_buf_def zero_buf_def)
    then have "get_free_buf ex n c = Inr (Some ?b, c\<lparr>free_bufs := []\<rparr>) \<and> n \<le> length (data ?b)"
      using e unat_pow2_roundup [OF assms(4)] by simp
    then show ?thesis by blast
  qed
next
  case (Cons b bs)
  then show ?thesis
    using assms unat_pow2_roundup [of n]
    by (auto simp add: get_free_buf_def)
qed

lemma get_free_buf_frame:
  assumes "get_free_buf ex n c = Inr (r, c')"
  shows "\<exists>fb. c' = c\<lparr>free_bufs := fb\<rparr>"
proof (cases "free_bufs c")
  case Nil
  then have "c' = c" using assms by (auto simp: get_free_buf_def split: if_splits)
  then have "c' = c\<lparr>free_bufs := []\<rparr>" using Nil by simp
  then show ?thesis ..
next
  case (Cons b bs)
  then have "c' = c\<lparr>free_bufs := bs\<rparr>" using assms by (auto simp: get_free_buf_def split: if_splits)
  then show ?thesis ..
qed


lemma rd32_be32: "rd32 (ucast (drop_bit 24 w)) (ucast (drop_bit 16 w)) (ucast (drop_bit 8 w)) (ucast w) = w"
proof (rule bit_word_eqI)
  fix n
  assume "n < LENGTH(32)"
  then have n: "n < 32" by simp
  consider "n < 8" | "8 \<le> n" "n < 16" | "16 \<le> n" "n < 24" | "24 \<le> n"
    by linarith
  then show "bit (rd32 (ucast (drop_bit 24 w)) (ucast (drop_bit 16 w)) (ucast (drop_bit 8 w)) (ucast w)) n = bit w n"
  proof cases
    case 1
    then show ?thesis by (auto simp: rd32_def bit_simps)
  next
    case 2
    then show ?thesis by (auto simp: rd32_def bit_simps)
  next
    case 3
    then show ?thesis by (auto simp: rd32_def bit_simps)
  next
    case 4
    then show ?thesis using n by (auto simp: rd32_def bit_simps)
  qed
qed

lemma length_frame: "length (frame p) = length p + 4"
  by (simp add: frame_def be32_def)

lemma load32_frame:
  assumes "take (length p + 4) mem = frame p" and "length p + 4 \<le> length mem"
  shows "load32 mem 0 = Some (of_nat (length p))"
proof -
  have "mem = frame p @ drop (length p + 4) mem"
    using assms(1) append_take_drop_id [of "length p + 4" mem] by simp
  then obtain r where m: "mem = frame p @ r" ..
  show ?thesis
    using assms(2) rd32_be32 [of "of_nat (length p)"]
    by (simp add: m load32_def frame_def be32_def)
qed

lemma load_frame:
  assumes "take (length p + 4) mem = frame p" and "length p + 4 \<le> length mem"
  shows "load mem 4 (length p) = Some p"
proof -
  have "mem = frame p @ drop (length p + 4) mem"
    using assms(1) append_take_drop_id [of "length p + 4" mem] by simp
  then obtain r where m: "mem = frame p @ r" ..
  show ?thesis
    using assms(2) by (simp add: m load_def frame_def be32_def)
qed


lemma store_0: "store mem 0 xs = Some d \<Longrightarrow> take (length xs) d = xs"
  by (auto simp: store_def split: if_splits)

lemma fmt_server_message_True:
  assumes "fmt_server_message cfg ex c msg = Inr (True, c')"
  shows "\<exists>b fb. c' = c\<lparr>free_bufs := fb, write_bufs := write_bufs c @ [b]\<rparr>
           \<and> take (length (packed ex msg) + 4) (data b) = frame (packed ex msg)
           \<and> len b = of_nat (length (packed ex msg) + 4)"
proof -
  let ?p = "packed ex msg"
  from assms obtain r c1 where g: "get_free_buf ex (length ?p + 4) c = Inr (r, c1)"
    by (cases "get_free_buf ex (length ?p + 4) c")
       (auto simp: fmt_server_message_def Let_def split: if_splits)
  from get_free_buf_frame [OF g] obtain fb where c1: "c1 = c\<lparr>free_bufs := fb\<rparr>" ..
  from assms g obtain buf d where r: "r = Some buf"
    and st: "store (data buf) 0 (frame ?p) = Some d"
    and c': "c' = c1\<lparr>write_bufs := write_bufs c1 @ [buf\<lparr>data := d, len := of_nat (length ?p + 4)\<rparr>]\<rparr>"
    by (auto simp: fmt_server_message_def Let_def split: if_splits option.splits)
  let ?b = "buf\<lparr>data := d, len := of_nat (length ?p + 4)\<rparr>"
  have "c' = c\<lparr>free_bufs := fb, write_bufs := write_bufs c @ [?b]\<rparr>"
    using c' c1 by simp
  moreover have "take (length ?p + 4) (data ?b) = frame ?p"
    using store_0 [OF st] by (simp add: length_frame)
  moreover have "len ?b = of_nat (length ?p + 4)" by simp
  ultimately show ?thesis by blast
qed

lemma fmt_server_message_False:
  assumes "fmt_server_message cfg ex c msg = Inr (False, c')"
  shows "\<exists>fb. c' = c\<lparr>free_bufs := fb\<rparr>"
proof (cases "length (packed ex msg) > MESSAGE_SIZE_MAX cfg")
  case True
  then have "c' = c" using assms by (simp add: fmt_server_message_def Let_def)
  then have "c' = c\<lparr>free_bufs := free_bufs c\<rparr>" by simp
  then show ?thesis ..
next
  case False
  let ?p = "packed ex msg"
  from assms False obtain r c1 where g: "get_free_buf ex (length ?p + 4) c = Inr (r, c1)"
    by (cases "get_free_buf ex (length ?p + 4) c")
       (auto simp: fmt_server_message_def Let_def split: if_splits)
  from get_free_buf_frame [OF g] obtain fb where c1: "c1 = c\<lparr>free_bufs := fb\<rparr>" ..
  have "c' = c1"
    using assms False g by (auto simp: fmt_server_message_def Let_def split: option.splits)
  then show ?thesis using c1 by blast
qed

lemma fmt_server_message_ok:
  assumes fit: "length (packed ex msg) \<le> MESSAGE_SIZE_MAX cfg"
    and max: "MESSAGE_SIZE_MAX cfg + 4 \<le> 2 ^ 31"
    and wf: "\<forall>b \<in> set (free_bufs c). length (data b) = unat (size_buf b)"
    and "calloc_ok ex" and "malloc_ok ex"
  shows "\<exists>c'. fmt_server_message cfg ex c msg = Inr (True, c')"
proof -
  let ?p = "packed ex msg"
  have n: "length ?p + 4 \<le> 2 ^ 31" using fit max by simp
  from get_free_buf_ok [OF wf assms(4) assms(5) n]
  obtain b fb where g: "get_free_buf ex (length ?p + 4) c = Inr (Some b, c\<lparr>free_bufs := fb\<rparr>)"
    and l: "length ?p + 4 \<le> length (data b)" by blast
  have "store (data b) 0 (frame ?p) \<noteq> None"
    using l by (simp add: store_def length_frame)
  then show ?thesis
    using fit g by (auto simp: fmt_server_message_def Let_def)
qed


lemma decode_frame:
  assumes fit: "length p \<le> MESSAGE_SIZE_MAX cfg"
    and max: "MESSAGE_SIZE_MAX cfg + 4 < 2 ^ 32"
    and "off (read_buf c) = 0"
    and "len (read_buf c) = of_nat (length p + 4)"
    and "take (length p + 4) (data (read_buf c)) = frame p"
    and "length p + 4 \<le> length (data (read_buf c))"
  shows "client_msg_cb_loop cfg ex h c =
     (case h p (c\<lparr>read_buf := (read_buf c)\<lparr>off := 4\<rparr>\<rparr>) of
        Inl f \<Rightarrow> Crash f
      | Inr (False, c1) \<Rightarrow> send_error cfg ex (c1\<lparr>errstr := Some ''invalid ClientMessage''\<rparr>)
      | Inr (True, c1) \<Rightarrow>
          (let c2 = c1\<lparr>read_buf := (read_buf c)\<lparr>len := 0, off := 0\<rparr>\<rparr> in
           if state c2 = FINISHED then Close c2 else Return c2))"
proof -
  let ?rb = "read_buf c"
  let ?L = "of_nat (length p) :: uint32"
  have lp: "length p + 4 < 2 ^ 32" using fit max by simp
  have uL: "unat ?L = length p"
    using lp by (simp add: unat_of_nat)
  have u4: "unat (of_nat (length p + 4) :: uint32) = length p + 4"
    unfolding unat_of_nat using lp by simp
  have "len ?rb - off ?rb = of_nat (length p + 4)"
    by (simp only: assms(3,4) diff_zero)
  then have uLen: "unat (len ?rb - off ?rb) = length p + 4"
    by (simp only: u4)
  have l32: "load32 (data ?rb) (unat (off ?rb)) = Some ?L"
    using load32_frame [OF assms(5,6)] assms(3) by simp
  have ld: "load (data ?rb) (unat (off ?rb + 4)) (unat ?L) = Some p"
    using load_frame [OF assms(5,6)] assms(3) uL by simp
  have e: "off ?rb + 4 + ?L = len ?rb"
    using assms(3,4) by simp
  have step: "client_msg_cb_loop cfg ex h c =
     (case h p (c\<lparr>read_buf := ?rb\<lparr>off := off ?rb + 4\<rparr>\<rparr>) of
        Inl f \<Rightarrow> Crash f
      | Inr (False, c1) \<Rightarrow> send_error cfg ex (c1\<lparr>errstr := Some ''invalid ClientMessage''\<rparr>)
      | Inr (True, c1) \<Rightarrow>
          client_msg_cb_loop cfg ex h (c1\<lparr>read_buf := ?rb\<lparr>off := off ?rb + 4 + ?L\<rparr>\<rparr>))"
    apply (subst client_msg_cb_loop.simps)
    using uLen l32 ld uL fit
    apply (simp add: Let_def)
    done
  have fin: "\<And>c1. client_msg_cb_loop cfg ex h (c1\<lparr>read_buf := ?rb\<lparr>off := len ?rb\<rparr>\<rparr>) =
      (let c2 = c1\<lparr>read_buf := ?rb\<lparr>len := 0, off := 0\<rparr>\<rparr> in
       if state c2 = FINISHED then Close c2 else Return c2)"
    apply (subst client_msg_cb_loop.simps)
    apply (simp add: Let_def)
    done
  show ?thesis
    unfolding step e fin using assms(3) by simp
qed

subsection \<open>The concrete connection\<close>

lemma closure0_eq:
  "state closure0 = INITIAL" "relay_closure closure0 = None" "log_io closure0 = False"
  "commit_ev closure0 = Some \<lparr>inserted = False, timeo = None\<rparr>"
  "write_ev closure0 = Some \<lparr>inserted = False, timeo = None\<rparr>"
  "read_ev closure0 = \<lparr>inserted = False, timeo = None\<rparr>"
  "free_bufs closure0 = []" "write_bufs closure0 = []" "ssl closure0 = None"
  "read_buf closure0 = \<lparr>data = replicate (64 * 1024) 0, size_buf = 64 * 1024, len = 0, off = 0\<rparr>"
  by (simp_all add: closure0_def connection_closure_alloc_def Let_def conf0_def ext0_def)


subsection \<open>The state machine\<close>

lemma handle_accept_True:
  "handle_accept sw m buf c = Inr (True, c') \<Longrightarrow> state c = INITIAL \<and> state c' = RUNNING"
  by (auto simp: handle_accept_def split: if_splits sum.splits prod.splits bool.splits)

lemma handle_reject_True:
  "handle_reject sw m buf c = Inr (True, c') \<Longrightarrow> state c = INITIAL \<and> state c' = FINISHED"
  by (auto simp: handle_reject_def split: if_splits sum.splits prod.splits bool.splits)

lemma handle_restart_True:
  "handle_restart cfg ex sw m buf c = Inr (True, c') \<Longrightarrow> state c = INITIAL \<and> state c' = RUNNING"
  by (auto simp: handle_restart_def Let_def split: if_splits sum.splits prod.splits bool.splits)


text \<open>
  Claim C1. An Accept, Reject or Restart message that arrives in a state other than
  \<^verbatim>\<open>INITIAL\<close> makes its handler fail with the error string "state machine error" and
  leaves the rest of the closure as it was. A handler that succeeds was called in state
  \<^verbatim>\<open>INITIAL\<close>; Accept and Restart then leave the state \<^verbatim>\<open>RUNNING\<close>, Reject leaves it
  \<^verbatim>\<open>FINISHED\<close>. This holds for every message switch.
\<close>

theorem handlers_need_initial:
  "(state c \<noteq> INITIAL \<longrightarrow>
      handle_accept sw am buf c = Inr (False, c\<lparr>errstr := Some ''state machine error''\<rparr>)
    \<and> handle_reject sw rm buf c = Inr (False, c\<lparr>errstr := Some ''state machine error''\<rparr>)
    \<and> handle_restart cfg ex sw sm buf c = Inr (False, c\<lparr>errstr := Some ''state machine error''\<rparr>))
   \<and> (handle_accept sw am buf c = Inr (True, c1) \<longrightarrow> state c = INITIAL \<and> state c1 = RUNNING)
   \<and> (handle_reject sw rm buf c = Inr (True, c2) \<longrightarrow> state c = INITIAL \<and> state c2 = FINISHED)
   \<and> (handle_restart cfg ex sw sm buf c = Inr (True, c3) \<longrightarrow> state c = INITIAL \<and> state c3 = RUNNING)"
proof (intro conjI impI)
  assume "state c \<noteq> INITIAL"
  then show "handle_accept sw am buf c = Inr (False, c\<lparr>errstr := Some ''state machine error''\<rparr>)"
    and "handle_reject sw rm buf c = Inr (False, c\<lparr>errstr := Some ''state machine error''\<rparr>)"
    and "handle_restart cfg ex sw sm buf c = Inr (False, c\<lparr>errstr := Some ''state machine error''\<rparr>)"
    by (simp_all add: handle_accept_def handle_reject_def handle_restart_def)
next
  assume "handle_accept sw am buf c = Inr (True, c1)"
  then show "state c = INITIAL" and "state c1 = RUNNING"
    using handle_accept_True by blast+
next
  assume "handle_reject sw rm buf c = Inr (True, c2)"
  then show "state c = INITIAL" and "state c2 = FINISHED"
    using handle_reject_True by blast+
next
  assume "handle_restart cfg ex sw sm buf c = Inr (True, c3)"
  then show "state c = INITIAL" and "state c3 = RUNNING"
    using handle_restart_True by blast+
qed

theorem handlers_need_initial_witness:
  "state (closure0\<lparr>state := RUNNING\<rparr>) \<noteq> INITIAL
   \<and> handle_accept cms_ok accept0 [] (closure0\<lparr>state := RUNNING\<rparr>)
       = Inr (False, closure0\<lparr>state := RUNNING, errstr := Some ''state machine error''\<rparr>)
   \<and> handle_accept cms_ok accept0 [] closure0 = Inr (True, closure0\<lparr>log_io := True, state := RUNNING\<rparr>)
   \<and> state (closure0\<lparr>log_io := True, state := RUNNING\<rparr>) = RUNNING
   \<and> handle_reject cms_ok reject0 [] closure0 = Inr (True, closure0\<lparr>state := FINISHED\<rparr>)
   \<and> state (closure0\<lparr>state := FINISHED\<rparr>) = FINISHED
   \<and> handle_restart conf0 ext0 cms_ok restart0 [] closure0 = Inr (True, closure0\<lparr>state := RUNNING\<rparr>)"
proof -
  have a: "handle_accept cms_ok accept0 [] closure0 = Inr (True, closure0\<lparr>log_io := True, state := RUNNING\<rparr>)"
    by (simp add: closure0_eq handle_accept_def cms_ok_def accept0_def)
  have r: "handle_reject cms_ok reject0 [] closure0 = Inr (True, closure0\<lparr>state := FINISHED\<rparr>)"
    by (simp add: closure0_eq handle_reject_def cms_ok_def reject0_def)
  have s: "handle_restart conf0 ext0 cms_ok restart0 [] closure0 = Inr (True, closure0\<lparr>state := RUNNING\<rparr>)"
    by (simp add: closure0_eq handle_restart_def cms_ok_def)
  have n: "state (closure0\<lparr>state := RUNNING\<rparr>) \<noteq> INITIAL" by simp
  from handlers_need_initial [where c = "closure0\<lparr>state := RUNNING\<rparr>" and sw = cms_ok
      and am = accept0 and buf = "[]"] n
  have 1: "handle_accept cms_ok accept0 [] (closure0\<lparr>state := RUNNING\<rparr>)
       = Inr (False, closure0\<lparr>state := RUNNING, errstr := Some ''state machine error''\<rparr>)"
    by blast
  from handlers_need_initial [where c = closure0 and sw = cms_ok and am = accept0 and buf = "[]"
      and ?c1.0 = "closure0\<lparr>log_io := True, state := RUNNING\<rparr>"] a
  have 2: "state (closure0\<lparr>log_io := True, state := RUNNING\<rparr>) = RUNNING"
    by blast
  from handlers_need_initial [where c = closure0 and sw = cms_ok and rm = reject0 and buf = "[]"
      and ?c2.0 = "closure0\<lparr>state := FINISHED\<rparr>"] r
  have 3: "state (closure0\<lparr>state := FINISHED\<rparr>) = FINISHED"
    by blast
  show ?thesis using n 1 a 2 r 3 s by blast
qed


text \<open>
  Claim C10. On a connection whose \<^verbatim>\<open>log_io\<close> flag is false, the handlers of I/O buffers,
  window size changes and suspend events fail without calling the sink: in state
  \<^verbatim>\<open>RUNNING\<close> with the error string "protocol error", in any other state with
  "state machine error". So a handler that succeeds ran on a connection in state
  \<^verbatim>\<open>RUNNING\<close> with \<^verbatim>\<open>log_io\<close> set.
\<close>

theorem iobuf_needs_log_io:
  "(\<not> log_io c \<longrightarrow>
      handle_iobuf cfg ex sw fd iob buf c =
        Inr (False, c\<lparr>errstr := Some (if state c = RUNNING then ''protocol error'' else ''state machine error'')\<rparr>)
    \<and> handle_winsize cfg ex sw wm buf c =
        Inr (False, c\<lparr>errstr := Some (if state c = RUNNING then ''protocol error'' else ''state machine error'')\<rparr>)
    \<and> handle_suspend cfg ex sw sm buf c =
        Inr (False, c\<lparr>errstr := Some (if state c = RUNNING then ''protocol error'' else ''state machine error'')\<rparr>))
   \<and> (handle_iobuf cfg ex sw fd iob buf c = Inr (True, c1) \<longrightarrow> log_io c \<and> state c = RUNNING)
   \<and> (handle_winsize cfg ex sw wm buf c = Inr (True, c2) \<longrightarrow> log_io c \<and> state c = RUNNING)
   \<and> (handle_suspend cfg ex sw sm buf c = Inr (True, c3) \<longrightarrow> log_io c \<and> state c = RUNNING)"
  by (simp add: handle_iobuf_def handle_winsize_def handle_suspend_def)

theorem iobuf_needs_log_io_witness:
  "\<not> log_io (closure0\<lparr>state := RUNNING\<rparr>)
   \<and> handle_iobuf conf0 ext0 cms_ok IOFD_TTYOUT iobuf0 [] (closure0\<lparr>state := RUNNING\<rparr>)
       = Inr (False, closure0\<lparr>state := RUNNING, errstr := Some ''protocol error''\<rparr>)
   \<and> handle_winsize conf0 ext0 cms_ok winsize0 [] (closure0\<lparr>state := RUNNING\<rparr>)
       = Inr (False, closure0\<lparr>state := RUNNING, errstr := Some ''protocol error''\<rparr>)
   \<and> handle_suspend conf0 ext0 cms_ok suspend0 [] (closure0\<lparr>state := RUNNING\<rparr>)
       = Inr (False, closure0\<lparr>state := RUNNING, errstr := Some ''protocol error''\<rparr>)"
proof -
  have n: "\<not> log_io (closure0\<lparr>state := RUNNING\<rparr>)" by (simp add: closure0_eq)
  from iobuf_needs_log_io [where c = "closure0\<lparr>state := RUNNING\<rparr>" and cfg = conf0 and ex = ext0
      and sw = cms_ok and fd = IOFD_TTYOUT and iob = iobuf0 and buf = "[]" and wm = winsize0
      and sm = suspend0] n
  show ?thesis by simp
qed

lemma handle_exit_not_running:
  "state c \<noteq> RUNNING \<Longrightarrow>
   handle_exit ex sw msg buf c = Inr (False, c\<lparr>errstr := Some ''state machine error''\<rparr>)"
  by (simp add: handle_exit_def)

lemma handle_exit_sink_failed:
  "state c = RUNNING \<Longrightarrow> exit sw msg buf c = Inr (False, c1) \<Longrightarrow>
   handle_exit ex sw msg buf c = Inr (False, c1\<lparr>read_ev := sudo_ev_del (read_ev c1)\<rparr>)"
  by (simp add: handle_exit_def)

lemma handle_exit_no_log_io:
  "state c = RUNNING \<Longrightarrow> exit sw msg buf c = Inr (True, c1) \<Longrightarrow> \<not> log_io c1 \<Longrightarrow>
   handle_exit ex sw msg buf c =
     Inr (True, c1\<lparr>state := FINISHED, read_ev := sudo_ev_del (read_ev c1)\<rparr>)"
  by (simp add: handle_exit_def Let_def)

lemma handle_exit_log_io:
  assumes "state c = RUNNING" and "exit sw msg buf c = Inr (True, c1)" and "log_io c1"
    and "handle_exit ex sw msg buf c = Inr (ok, c')"
  shows "state c' = EXITED \<and> \<not> inserted (read_ev c')
     \<and> (relay_closure c1 \<noteq> None \<longrightarrow> ok \<and> commit_ev c' = commit_ev c1)
     \<and> (relay_closure c1 = None \<longrightarrow> ok \<longrightarrow> (\<exists>ev. commit_ev c' = Some ev \<and> inserted ev))"
proof (cases "relay_closure c1")
  case None
  then show ?thesis
    using assms
    by (auto simp: handle_exit_def Let_def sudo_ev_del_def sudo_ev_add_def
        split: option.splits if_splits)
next
  case (Some r)
  then show ?thesis
    using assms by (auto simp: handle_exit_def Let_def sudo_ev_del_def)
qed

text \<open>
  Claim C5, as amended. Let the sink of the Exit message leave the state and the
  \<^verbatim>\<open>log_io\<close> flag as they were (the local sink changes nothing). Then \<^verbatim>\<open>handle_exit\<close>
  enters \<^verbatim>\<open>EXITED\<close> exactly from \<^verbatim>\<open>RUNNING\<close> after a successful sink call with \<^verbatim>\<open>log_io\<close>
  set, whether or not a relay is attached, and it enters \<^verbatim>\<open>FINISHED\<close> exactly from
  \<^verbatim>\<open>RUNNING\<close> after a successful sink call with \<^verbatim>\<open>log_io\<close> clear. Whenever the message
  is handled in state \<^verbatim>\<open>RUNNING\<close> the read event is deregistered.
\<close>

theorem exit_transition:
  assumes sink: "exit sw msg buf c = Inr (r, c1)"
    and st: "state c1 = state c" and lg: "log_io c1 = log_io c"
    and run: "handle_exit ex sw msg buf c = Inr (ok, c')"
  shows "(state c' = EXITED \<longleftrightarrow> state c = EXITED \<or> (state c = RUNNING \<and> r \<and> log_io c))
     \<and> (state c' = FINISHED \<longleftrightarrow> state c = FINISHED \<or> (state c = RUNNING \<and> r \<and> \<not> log_io c))
     \<and> (state c = RUNNING \<longrightarrow> \<not> inserted (read_ev c'))"
proof (cases "state c = RUNNING")
  case False
  then have "c' = c\<lparr>errstr := Some ''state machine error''\<rparr>"
    using run handle_exit_not_running [of c ex sw msg buf] by simp
  then show ?thesis using False by auto
next
  case True
  show ?thesis
  proof (cases r)
    case False
    then have "c' = c1\<lparr>read_ev := sudo_ev_del (read_ev c1)\<rparr>"
      using run sink True handle_exit_sink_failed [of c sw msg buf c1 ex] by simp
    then show ?thesis using True False st by (simp add: sudo_ev_del_def)
  next
    case r: True
    show ?thesis
    proof (cases "log_io c1")
      case False
      then have "c' = c1\<lparr>state := FINISHED, read_ev := sudo_ev_del (read_ev c1)\<rparr>"
        using run sink True r handle_exit_no_log_io [of c sw msg buf c1 ex] by simp
      then show ?thesis using True r False lg by (simp add: sudo_ev_del_def)
    next
      case l: True
      from handle_exit_log_io [OF True _ l run] sink r
      have "state c' = EXITED \<and> \<not> inserted (read_ev c')" by simp
      then show ?thesis using True r l lg by simp
    qed
  qed
qed

text \<open>
  The claim as stated fails: a connection with a relay attached accepts an Accept
  message that announces I/O buffers, and the Exit message that follows takes it to
  \<^verbatim>\<open>EXITED\<close>, not to \<^verbatim>\<open>FINISHED\<close>. The relay host sends the final commit point then.
\<close>

theorem exit_with_relay_counterexample:
  "handle_accept cms_ok accept0 [] (closure0\<lparr>relay_closure := Some 1\<rparr>) = Inr (True, closure_relayed)
   \<and> relay_closure closure_relayed = Some 1
   \<and> handle_exit ext0 cms_ok exit0 [] closure_relayed
       = Inr (True, closure_relayed\<lparr>state := EXITED, read_ev := \<lparr>inserted = False, timeo = None\<rparr>\<rparr>)"
  by (simp add: closure_relayed_def closure0_eq handle_accept_def handle_exit_def cms_ok_def
      accept0_def Let_def sudo_ev_del_def)

theorem exit_transition_witness:
  "exit cms_ok exit0 [] closure_relayed = Inr (True, closure_relayed)
   \<and> handle_exit ext0 cms_ok exit0 [] closure_relayed
       = Inr (True, closure_relayed\<lparr>state := EXITED, read_ev := \<lparr>inserted = False, timeo = None\<rparr>\<rparr>)
   \<and> state closure_relayed = RUNNING \<and> log_io closure_relayed
   \<and> state (closure_relayed\<lparr>state := EXITED, read_ev := \<lparr>inserted = False, timeo = None\<rparr>\<rparr>) = EXITED"
proof -
  have s: "exit cms_ok exit0 [] closure_relayed = Inr (True, closure_relayed)"
    by (simp add: cms_ok_def)
  have h: "handle_exit ext0 cms_ok exit0 [] closure_relayed
       = Inr (True, closure_relayed\<lparr>state := EXITED, read_ev := \<lparr>inserted = False, timeo = None\<rparr>\<rparr>)"
    by (simp add: closure_relayed_def closure0_eq handle_exit_def cms_ok_def Let_def sudo_ev_del_def)
  have p: "state closure_relayed = RUNNING \<and> log_io closure_relayed"
    by (simp add: closure_relayed_def)
  from exit_transition [OF s refl refl h] p
  have "state (closure_relayed\<lparr>state := EXITED, read_ev := \<lparr>inserted = False, timeo = None\<rparr>\<rparr>) = EXITED"
    by blast
  then show ?thesis using s h p by blast
qed

lemma enable_commit_relay:
  "relay_closure c \<noteq> None \<Longrightarrow> enable_commit cfg ex c = Inr (True, c)"
  by (auto simp: enable_commit_def)

lemma enable_commit_pending:
  "commit_ev c = Some ev \<Longrightarrow> inserted ev \<Longrightarrow> enable_commit cfg ex c = Inr (True, c)"
  by (auto simp: enable_commit_def)

lemma enable_commit_armed:
  assumes "relay_closure c = None" and "enable_commit cfg ex c = Inr (True, c')"
  shows "\<exists>ev. commit_ev c' = Some ev \<and> inserted ev"
  using assms
  by (auto simp: enable_commit_def sudo_ev_add_def split: option.splits if_splits)

lemma handle_iobuf_True:
  assumes "iobuf sw fd iob buf c = Inr (True, c1)"
    and "handle_iobuf cfg ex sw fd iob buf c = Inr (True, c2)"
  shows "enable_commit cfg ex c1 = Inr (True, c2)"
  using assms
  by (auto simp: handle_iobuf_def split: if_splits sum.splits bool.splits prod.splits)

lemma handle_winsize_True:
  assumes "winsize sw m buf c = Inr (True, c1)"
    and "handle_winsize cfg ex sw m buf c = Inr (True, c2)"
  shows "enable_commit cfg ex c1 = Inr (True, c2)"
  using assms
  by (auto simp: handle_winsize_def split: if_splits sum.splits bool.splits prod.splits)

lemma handle_suspend_True:
  assumes "suspend sw m buf c = Inr (True, c1)"
    and "handle_suspend cfg ex sw m buf c = Inr (True, c2)"
  shows "enable_commit cfg ex c1 = Inr (True, c2)"
  using assms
  by (auto simp: handle_suspend_def split: if_splits sum.splits bool.splits prod.splits)

lemma after_enable_commit:
  assumes "enable_commit cfg ex c1 = Inr (True, c2)"
  shows "if relay_closure c1 = None then \<exists>ev. commit_ev c2 = Some ev \<and> inserted ev else c2 = c1"
  using assms enable_commit_armed [of c1 cfg ex c2] enable_commit_relay [of c1 cfg ex]
  by (cases "relay_closure c1") auto

lemma handle_exit_relay:
  assumes "exit sw msg buf c = Inr (r, c1)" and "relay_closure c1 \<noteq> None"
    and "handle_exit ex sw msg buf c = Inr (ok, c3)"
  shows "commit_ev c3 = (if state c = RUNNING then commit_ev c1 else commit_ev c)"
  using assms
  by (auto simp: handle_exit_def Let_def split: if_splits bool.splits)

lemma server_shutdown_relay:
  "relay_closure c \<noteq> None \<Longrightarrow>
   server_shutdown ex [c] = [Relay_shutdown (c\<lparr>state := SHUTDOWN, read_ev := sudo_ev_del (read_ev c)\<rparr>)]"
  by (auto simp: server_shutdown_def Let_def)

lemma enable_commit_adds:
  assumes "relay_closure c = None" and "commit_ev c = Some ev" and "\<not> inserted ev"
    and "ev_add_ok ex"
  shows "enable_commit cfg ex c =
     Inr (True, c\<lparr>commit_ev := Some (ev\<lparr>inserted := True, timeo := Some (ACK_FREQUENCY cfg, 0)\<rparr>)\<rparr>)"
  using assms by (simp add: enable_commit_def sudo_ev_add_def)

lemma handle_iobuf_running:
  assumes "state c = RUNNING" and "log_io c" and "iobuf sw fd iob buf c = Inr (True, c1)"
  shows "handle_iobuf cfg ex sw fd iob buf c = enable_commit cfg ex c1"
  using assms by (simp add: handle_iobuf_def split: sum.splits bool.splits prod.splits)

lemma handle_winsize_running:
  assumes "state c = RUNNING" and "log_io c" and "winsize sw m buf c = Inr (True, c1)"
  shows "handle_winsize cfg ex sw m buf c = enable_commit cfg ex c1"
  using assms by (simp add: handle_winsize_def split: sum.splits bool.splits prod.splits)

lemma handle_suspend_running:
  assumes "state c = RUNNING" and "log_io c" and "suspend sw m buf c = Inr (True, c1)"
  shows "handle_suspend cfg ex sw m buf c = enable_commit cfg ex c1"
  using assms by (simp add: handle_suspend_def split: sum.splits bool.splits prod.splits)

text \<open>
  Claim C6. \<^verbatim>\<open>enable_commit\<close> leaves a connection with a relay closure as it is, leaves
  a commit event that is already pending as it is, and on a connection without a relay
  whose commit event is not pending it adds the event with the \<^verbatim>\<open>ACK_FREQUENCY\<close> timeout
  (when the event library accepts it); it succeeds without a relay only with the commit
  event in the queue. On a connection that is \<^verbatim>\<open>RUNNING\<close> and logs I/O, the handler of an
  I/O buffer, of a window size change and of a suspend event returns, once its sink has
  succeeded, exactly what \<^verbatim>\<open>enable_commit\<close> returns on the closure that the sink left: so
  each of the three arms the timer when no relay is attached and leaves the closure as
  the sink left it when one is. After any of the three that is handled successfully,
  the commit event is pending if the closure that the sink left has no relay.
  \<^verbatim>\<open>handle_exit\<close> and \<^verbatim>\<open>server_shutdown\<close>, the other two places that add the commit event,
  do not touch it when a relay is attached.
\<close>

theorem commit_timer_only_without_relay:
  "(relay_closure c \<noteq> None \<longrightarrow> enable_commit cfg ex c = Inr (True, c))
   \<and> (\<forall>ev. commit_ev c = Some ev \<and> inserted ev \<longrightarrow> enable_commit cfg ex c = Inr (True, c))
   \<and> (\<forall>ev. relay_closure c = None \<and> commit_ev c = Some ev \<and> \<not> inserted ev \<and> ev_add_ok ex \<longrightarrow>
         enable_commit cfg ex c =
           Inr (True, c\<lparr>commit_ev :=
                  Some (ev\<lparr>inserted := True, timeo := Some (ACK_FREQUENCY cfg, 0)\<rparr>)\<rparr>))
   \<and> (relay_closure c = None \<and> enable_commit cfg ex c = Inr (True, c') \<longrightarrow>
         (\<exists>ev. commit_ev c' = Some ev \<and> inserted ev))
   \<and> (state c = RUNNING \<and> log_io c \<and> iobuf sw fd iob buf c = Inr (True, c1) \<longrightarrow>
         handle_iobuf cfg ex sw fd iob buf c = enable_commit cfg ex c1)
   \<and> (state c = RUNNING \<and> log_io c \<and> winsize sw wm buf c = Inr (True, c1) \<longrightarrow>
         handle_winsize cfg ex sw wm buf c = enable_commit cfg ex c1)
   \<and> (state c = RUNNING \<and> log_io c \<and> suspend sw sm buf c = Inr (True, c1) \<longrightarrow>
         handle_suspend cfg ex sw sm buf c = enable_commit cfg ex c1)
   \<and> (iobuf sw fd iob buf c = Inr (True, c1) \<and> handle_iobuf cfg ex sw fd iob buf c = Inr (True, c2) \<longrightarrow>
         (if relay_closure c1 = None then \<exists>ev. commit_ev c2 = Some ev \<and> inserted ev else c2 = c1))
   \<and> (winsize sw wm buf c = Inr (True, c1) \<and> handle_winsize cfg ex sw wm buf c = Inr (True, c2) \<longrightarrow>
         (if relay_closure c1 = None then \<exists>ev. commit_ev c2 = Some ev \<and> inserted ev else c2 = c1))
   \<and> (suspend sw sm buf c = Inr (True, c1) \<and> handle_suspend cfg ex sw sm buf c = Inr (True, c2) \<longrightarrow>
         (if relay_closure c1 = None then \<exists>ev. commit_ev c2 = Some ev \<and> inserted ev else c2 = c1))
   \<and> (exit sw em buf c = Inr (r, c1) \<and> relay_closure c1 \<noteq> None
        \<and> handle_exit ex sw em buf c = Inr (ok, c3) \<longrightarrow>
         commit_ev c3 = (if state c = RUNNING then commit_ev c1 else commit_ev c))
   \<and> (relay_closure c \<noteq> None \<longrightarrow>
         server_shutdown ex [c] =
           [Relay_shutdown (c\<lparr>state := SHUTDOWN, read_ev := sudo_ev_del (read_ev c)\<rparr>)])"
proof (intro conjI impI allI)
  assume "relay_closure c \<noteq> None"
  then show "enable_commit cfg ex c = Inr (True, c)" by (rule enable_commit_relay)
next
  fix ev assume "commit_ev c = Some ev \<and> inserted ev"
  then show "enable_commit cfg ex c = Inr (True, c)" using enable_commit_pending by blast
next
  fix ev
  assume "relay_closure c = None \<and> commit_ev c = Some ev \<and> \<not> inserted ev \<and> ev_add_ok ex"
  then show "enable_commit cfg ex c =
      Inr (True, c\<lparr>commit_ev :=
             Some (ev\<lparr>inserted := True, timeo := Some (ACK_FREQUENCY cfg, 0)\<rparr>)\<rparr>)"
    using enable_commit_adds by blast
next
  assume "relay_closure c = None \<and> enable_commit cfg ex c = Inr (True, c')"
  then show "\<exists>ev. commit_ev c' = Some ev \<and> inserted ev" using enable_commit_armed by blast
next
  assume "state c = RUNNING \<and> log_io c \<and> iobuf sw fd iob buf c = Inr (True, c1)"
  then show "handle_iobuf cfg ex sw fd iob buf c = enable_commit cfg ex c1"
    using handle_iobuf_running by blast
next
  assume "state c = RUNNING \<and> log_io c \<and> winsize sw wm buf c = Inr (True, c1)"
  then show "handle_winsize cfg ex sw wm buf c = enable_commit cfg ex c1"
    using handle_winsize_running by blast
next
  assume "state c = RUNNING \<and> log_io c \<and> suspend sw sm buf c = Inr (True, c1)"
  then show "handle_suspend cfg ex sw sm buf c = enable_commit cfg ex c1"
    using handle_suspend_running by blast
next
  assume "iobuf sw fd iob buf c = Inr (True, c1) \<and> handle_iobuf cfg ex sw fd iob buf c = Inr (True, c2)"
  then have "enable_commit cfg ex c1 = Inr (True, c2)" using handle_iobuf_True by blast
  then show "if relay_closure c1 = None then \<exists>ev. commit_ev c2 = Some ev \<and> inserted ev else c2 = c1"
    by (rule after_enable_commit)
next
  assume "winsize sw wm buf c = Inr (True, c1) \<and> handle_winsize cfg ex sw wm buf c = Inr (True, c2)"
  then have "enable_commit cfg ex c1 = Inr (True, c2)" using handle_winsize_True by blast
  then show "if relay_closure c1 = None then \<exists>ev. commit_ev c2 = Some ev \<and> inserted ev else c2 = c1"
    by (rule after_enable_commit)
next
  assume "suspend sw sm buf c = Inr (True, c1) \<and> handle_suspend cfg ex sw sm buf c = Inr (True, c2)"
  then have "enable_commit cfg ex c1 = Inr (True, c2)" using handle_suspend_True by blast
  then show "if relay_closure c1 = None then \<exists>ev. commit_ev c2 = Some ev \<and> inserted ev else c2 = c1"
    by (rule after_enable_commit)
next
  assume "exit sw em buf c = Inr (r, c1) \<and> relay_closure c1 \<noteq> None
        \<and> handle_exit ex sw em buf c = Inr (ok, c3)"
  then show "commit_ev c3 = (if state c = RUNNING then commit_ev c1 else commit_ev c)"
    using handle_exit_relay by blast
next
  assume "relay_closure c \<noteq> None"
  then show "server_shutdown ex [c] =
           [Relay_shutdown (c\<lparr>state := SHUTDOWN, read_ev := sudo_ev_del (read_ev c)\<rparr>)]"
    by (rule server_shutdown_relay)
qed

theorem commit_timer_only_without_relay_witness:
  "state closure_logging = RUNNING \<and> log_io closure_logging
   \<and> relay_closure closure_logging = None
   \<and> commit_ev closure_logging = Some \<lparr>inserted = False, timeo = None\<rparr>
   \<and> handle_iobuf conf0 ext0 cms_ok IOFD_TTYOUT iobuf0 [] closure_logging = Inr (True, closure_armed)
   \<and> handle_winsize conf0 ext0 cms_ok winsize0 [] closure_logging = Inr (True, closure_armed)
   \<and> handle_suspend conf0 ext0 cms_ok suspend0 [] closure_logging = Inr (True, closure_armed)
   \<and> commit_ev closure_armed = Some \<lparr>inserted = True, timeo = Some (10, 0)\<rparr>
   \<and> state closure_relayed = RUNNING \<and> log_io closure_relayed
   \<and> relay_closure closure_relayed \<noteq> None
   \<and> handle_iobuf conf0 ext0 cms_ok IOFD_TTYOUT iobuf0 [] closure_relayed = Inr (True, closure_relayed)
   \<and> handle_winsize conf0 ext0 cms_ok winsize0 [] closure_relayed = Inr (True, closure_relayed)
   \<and> handle_suspend conf0 ext0 cms_ok suspend0 [] closure_relayed = Inr (True, closure_relayed)
   \<and> commit_ev closure_relayed = Some \<lparr>inserted = False, timeo = None\<rparr>"
proof -
  have l: "state closure_logging = RUNNING" "log_io closure_logging"
    "relay_closure closure_logging = None"
    "commit_ev closure_logging = Some \<lparr>inserted = False, timeo = None\<rparr>"
    by (simp_all add: closure_logging_def closure0_eq)
  have x: "\<not> inserted \<lparr>inserted = False, timeo = None\<rparr>" "ev_add_ok ext0"
    by (simp_all add: ext0_def)
  have s: "iobuf cms_ok IOFD_TTYOUT iobuf0 [] closure_logging = Inr (True, closure_logging)"
    "winsize cms_ok winsize0 [] closure_logging = Inr (True, closure_logging)"
    "suspend cms_ok suspend0 [] closure_logging = Inr (True, closure_logging)"
    by (simp_all add: cms_ok_def)
  have a: "closure_logging\<lparr>commit_ev := Some (\<lparr>inserted = False, timeo = None\<rparr>
              \<lparr>inserted := True, timeo := Some (ACK_FREQUENCY conf0, 0)\<rparr>)\<rparr> = closure_armed"
    by (simp add: closure_armed_def conf0_def)
  note t = commit_timer_only_without_relay [where c = closure_logging
      and ?c1.0 = closure_logging and sw = cms_ok and fd = IOFD_TTYOUT and iob = iobuf0
      and wm = winsize0 and sm = suspend0 and buf = "[]" and cfg = conf0 and ex = ext0]
  have e: "enable_commit conf0 ext0 closure_logging = Inr (True, closure_armed)"
    using t l x a by metis
  have hl: "handle_iobuf conf0 ext0 cms_ok IOFD_TTYOUT iobuf0 [] closure_logging = Inr (True, closure_armed)"
    "handle_winsize conf0 ext0 cms_ok winsize0 [] closure_logging = Inr (True, closure_armed)"
    "handle_suspend conf0 ext0 cms_ok suspend0 [] closure_logging = Inr (True, closure_armed)"
    using t l(1,2) s e by metis+
  have ca: "commit_ev closure_armed = Some \<lparr>inserted = True, timeo = Some (10, 0)\<rparr>"
    by (simp add: closure_armed_def)
  have r: "state closure_relayed = RUNNING" "log_io closure_relayed"
    "relay_closure closure_relayed \<noteq> None"
    "commit_ev closure_relayed = Some \<lparr>inserted = False, timeo = None\<rparr>"
    by (simp_all add: closure_relayed_def closure0_eq)
  have sr: "iobuf cms_ok IOFD_TTYOUT iobuf0 [] closure_relayed = Inr (True, closure_relayed)"
    "winsize cms_ok winsize0 [] closure_relayed = Inr (True, closure_relayed)"
    "suspend cms_ok suspend0 [] closure_relayed = Inr (True, closure_relayed)"
    by (simp_all add: cms_ok_def)
  note u = commit_timer_only_without_relay [where c = closure_relayed
      and ?c1.0 = closure_relayed and sw = cms_ok and fd = IOFD_TTYOUT and iob = iobuf0
      and wm = winsize0 and sm = suspend0 and buf = "[]" and cfg = conf0 and ex = ext0]
  have er: "enable_commit conf0 ext0 closure_relayed = Inr (True, closure_relayed)"
    using u r(3) by metis
  have hr: "handle_iobuf conf0 ext0 cms_ok IOFD_TTYOUT iobuf0 [] closure_relayed = Inr (True, closure_relayed)"
    "handle_winsize conf0 ext0 cms_ok winsize0 [] closure_relayed = Inr (True, closure_relayed)"
    "handle_suspend conf0 ext0 cms_ok suspend0 [] closure_relayed = Inr (True, closure_relayed)"
    using u r(1,2) sr er by metis+
  show ?thesis
    using l hl ca r hr by (intro conjI)
qed

lemma store_accept_local_no_io:
  assumes "\<not> expect_iobufs msg" and "store_accept_local cfg ex msg buf c = Inr (ok, c1)"
  shows "write_bufs c1 = write_bufs c"
  using assms
  by (auto simp: store_accept_local_def evlog_new_def Let_def split: if_splits)

lemma store_accept_local_io:
  assumes io: "expect_iobufs msg" and run: "store_accept_local cfg ex msg buf c = Inr (True, c1)"
  shows "\<exists>p b. iolog_init_r ex = Some p \<and> log_io c1
           \<and> (\<exists>e. evlog c1 = Some e \<and> iolog_path e = Some p)
           \<and> write_bufs c1 = write_bufs c @ [b]
           \<and> take (length (packed ex (TYPE_LOG_ID p)) + 4) (data b) = frame (packed ex (TYPE_LOG_ID p))
           \<and> len b = of_nat (length (packed ex (TYPE_LOG_ID p)) + 4)"
proof -
  obtain e0 where e0: "evlog_new_r ex = Some e0"
    using run by (cases "evlog_new_r ex") (simp_all add: store_accept_local_def evlog_new_def Let_def)
  obtain p where p: "iolog_init_r ex = Some p"
    using run io e0
    by (cases "iolog_init_r ex") (simp_all add: store_accept_local_def evlog_new_def iolog_init_def Let_def)
  have ok: "eventlog_accept_ok ex"
    using run io e0 p
    by (cases "eventlog_accept_ok ex")
       (simp_all add: store_accept_local_def evlog_new_def iolog_init_def Let_def)
  let ?c2 = "c\<lparr>evlog := Some (e0\<lparr>iolog_path := Some p\<rparr>), log_io := True\<rparr>"
  have unf: "store_accept_local cfg ex msg buf c =
      (case fmt_log_id_message cfg ex p ?c2 of
         Inl f \<Rightarrow> Inl f
       | Inr (False, c3) \<Rightarrow> Inr (False, c3)
       | Inr (True, c3) \<Rightarrow>
           (case write_ev c3 of
              None \<Rightarrow> Inl Null_deref
            | Some wev \<Rightarrow>
                (case sudo_ev_add (ev_add_ok ex) wev (server_timeout cfg) of
                   None \<Rightarrow> Inr (False, c3)
                 | Some wev' \<Rightarrow> Inr (True, c3\<lparr>write_ev := Some wev'\<rparr>))))"
    using io e0 p ok by (simp add: store_accept_local_def evlog_new_def iolog_init_def Let_def)
  obtain c3 wev' where f: "fmt_log_id_message cfg ex p ?c2 = Inr (True, c3)"
    and c1: "c1 = c3\<lparr>write_ev := Some wev'\<rparr>"
    using run unfolding unf
    by (auto split: sum.splits bool.splits option.splits prod.splits)
  from fmt_server_message_True [OF f [unfolded fmt_log_id_message_def]]
  obtain b fb where c3: "c3 = ?c2\<lparr>free_bufs := fb, write_bufs := write_bufs ?c2 @ [b]\<rparr>"
    and fr: "take (length (packed ex (TYPE_LOG_ID p)) + 4) (data b) = frame (packed ex (TYPE_LOG_ID p))"
    and ln: "len b = of_nat (length (packed ex (TYPE_LOG_ID p)) + 4)"
    by blast
  have "log_io c1" "evlog c1 = Some (e0\<lparr>iolog_path := Some p\<rparr>)" "write_bufs c1 = write_bufs c @ [b]"
    using c1 c3 by simp_all
  then show ?thesis using p fr ln by auto
qed

lemma handle_accept_local_result:
  assumes "handle_accept (cms_local cfg ex) msg buf c = Inr (ok, c')"
  shows "(\<exists>c1. store_accept_local cfg ex msg buf c = Inr (ok, c1) \<and> write_bufs c' = write_bufs c1
             \<and> evlog c' = evlog c1 \<and> (ok \<longrightarrow> log_io c' = (expect_iobufs msg \<or> log_io c1)))
         \<or> (\<not> ok \<and> write_bufs c' = write_bufs c)"
  using assms
  by (auto simp: handle_accept_def cms_local_def split: if_splits sum.splits bool.splits prod.splits)

text \<open>
  Claim C7. For a connection on the local sink, a run of \<^verbatim>\<open>handle_accept\<close> appends to
  the write queue only if the message has \<^verbatim>\<open>expect_iobufs\<close> set. When the Accept is
  handled successfully and \<^verbatim>\<open>expect_iobufs\<close> is set, exactly one buffer has been
  appended, it holds the frame of a \<^verbatim>\<open>LogId\<close> message with the I/O log path, that path
  is in the event log record, and \<^verbatim>\<open>log_io\<close> is set; when \<^verbatim>\<open>expect_iobufs\<close> is clear the
  write queue is unchanged.
\<close>

theorem log_id_iff_expect_iobufs:
  assumes "handle_accept (cms_local cfg ex) msg buf c = Inr (ok, c')"
  shows "(write_bufs c' \<noteq> write_bufs c \<longrightarrow> expect_iobufs msg)
     \<and> (ok \<longrightarrow>
          (if expect_iobufs msg
           then \<exists>p b. iolog_init_r ex = Some p \<and> log_io c'
                  \<and> (\<exists>e. evlog c' = Some e \<and> iolog_path e = Some p)
                  \<and> write_bufs c' = write_bufs c @ [b]
                  \<and> take (length (packed ex (TYPE_LOG_ID p)) + 4) (data b) = frame (packed ex (TYPE_LOG_ID p))
                  \<and> len b = of_nat (length (packed ex (TYPE_LOG_ID p)) + 4)
           else write_bufs c' = write_bufs c))"
proof (intro conjI impI)
  assume ne: "write_bufs c' \<noteq> write_bufs c"
  show "expect_iobufs msg"
  proof (rule ccontr)
    assume n: "\<not> expect_iobufs msg"
    from handle_accept_local_result [OF assms] ne
    obtain c1 where "store_accept_local cfg ex msg buf c = Inr (ok, c1)" "write_bufs c' = write_bufs c1"
      by blast
    then show False using store_accept_local_no_io [OF n] ne by simp
  qed
next
  assume ok
  show "if expect_iobufs msg
           then \<exists>p b. iolog_init_r ex = Some p \<and> log_io c'
                  \<and> (\<exists>e. evlog c' = Some e \<and> iolog_path e = Some p)
                  \<and> write_bufs c' = write_bufs c @ [b]
                  \<and> take (length (packed ex (TYPE_LOG_ID p)) + 4) (data b) = frame (packed ex (TYPE_LOG_ID p))
                  \<and> len b = of_nat (length (packed ex (TYPE_LOG_ID p)) + 4)
           else write_bufs c' = write_bufs c"
  proof -
    from handle_accept_local_result [OF assms] \<open>ok\<close>
    obtain c1 where s: "store_accept_local cfg ex msg buf c = Inr (True, c1)"
      and w: "write_bufs c' = write_bufs c1" and e: "evlog c' = evlog c1"
      and l: "log_io c' = (expect_iobufs msg \<or> log_io c1)"
      by auto
    show ?thesis
    proof (cases "expect_iobufs msg")
      case True
      from store_accept_local_io [OF True s] show ?thesis
        using True w e l by auto
    next
      case False
      then show ?thesis using store_accept_local_no_io [OF False s] w by simp
    qed
  qed
qed

lemma handle_accept_local_ok:
  assumes "state c = INITIAL" and "submit_time msg \<noteq> None" and "info_msgs msg \<noteq> []"
    and e0: "evlog_new_r ex = Some e0" and p: "iolog_init_r ex = Some p"
    and "eventlog_accept_ok ex" and "ev_add_ok ex" and wev: "write_ev c = Some wev"
    and io: "expect_iobufs msg"
    and fit: "length (packed ex (TYPE_LOG_ID p)) \<le> MESSAGE_SIZE_MAX cfg"
    and max: "MESSAGE_SIZE_MAX cfg + 4 \<le> 2 ^ 31"
    and wf: "\<forall>b \<in> set (free_bufs c). length (data b) = unat (size_buf b)"
    and "calloc_ok ex" and "malloc_ok ex"
  shows "\<exists>c'. handle_accept (cms_local cfg ex) msg buf c = Inr (True, c')"
proof -
  let ?c2 = "c\<lparr>evlog := Some (e0\<lparr>iolog_path := Some p\<rparr>), log_io := True\<rparr>"
  have wf2: "\<forall>b \<in> set (free_bufs ?c2). length (data b) = unat (size_buf b)"
    using wf by simp
  from fmt_server_message_ok [OF fit max wf2 assms(13) assms(14)]
  obtain c3 where f: "fmt_server_message cfg ex ?c2 (TYPE_LOG_ID p) = Inr (True, c3)" ..
  from fmt_server_message_True [OF f] have w3: "write_ev c3 = Some wev"
    using wev by auto
  have "store_accept_local cfg ex msg buf c =
      Inr (True, c3\<lparr>write_ev := Some (wev\<lparr>inserted := True, timeo := server_timeout cfg\<rparr>)\<rparr>)"
    using io e0 p assms(6,7) f w3
    by (simp add: store_accept_local_def evlog_new_def iolog_init_def Let_def
        fmt_log_id_message_def sudo_ev_add_def)
  then show ?thesis
    using assms(1,2,3) by (simp add: handle_accept_def cms_local_def)
qed

theorem log_id_iff_expect_iobufs_witness:
  "\<exists>c'. handle_accept (cms_local conf0 ext0) accept0 [] closure0 = Inr (True, c')
      \<and> expect_iobufs accept0 \<and> log_io c'
      \<and> (\<exists>b. write_bufs c' = [b]
            \<and> take 31 (data b) = frame (pack0 (TYPE_LOG_ID ''/var/log/sudo-io/00/00/01'')))"
proof -
  have "\<exists>c'. handle_accept (cms_local conf0 ext0) accept0 [] closure0 = Inr (True, c')"
    by (rule handle_accept_local_ok [where ?e0.0 = "\<lparr>iolog_path = None\<rparr>"
          and p = "''/var/log/sudo-io/00/00/01''" and wev = "\<lparr>inserted = False, timeo = None\<rparr>"])
       (simp_all add: closure0_eq accept0_def ext0_def conf0_def pack0_def)
  then obtain c' where h: "handle_accept (cms_local conf0 ext0) accept0 [] closure0 = Inr (True, c')" ..
  have io: "expect_iobufs accept0" by (simp add: accept0_def)
  from log_id_iff_expect_iobufs [OF h] io
  obtain p b where "iolog_init_r ext0 = Some p" and l: "log_io c'"
    and w: "write_bufs c' = write_bufs closure0 @ [b]"
    and t: "take (length (packed ext0 (TYPE_LOG_ID p)) + 4) (data b) = frame (packed ext0 (TYPE_LOG_ID p))"
    by auto
  then have pp: "p = ''/var/log/sudo-io/00/00/01''" by (simp add: ext0_def)
  have "take 31 (data b) = frame (pack0 (TYPE_LOG_ID ''/var/log/sudo-io/00/00/01''))"
    using t unfolding pp by (simp add: ext0_def pack0_def)
  then show ?thesis using h io l w by (auto simp: closure0_eq)
qed

lemma schedule_error_message_ok:
  assumes "state c \<noteq> ERROR" and wev: "write_ev c = Some wev"
    and fit: "length (packed ex (TYPE_ERROR es)) \<le> MESSAGE_SIZE_MAX cfg"
    and max: "MESSAGE_SIZE_MAX cfg + 4 \<le> 2 ^ 31"
    and wf: "\<forall>b \<in> set (free_bufs c). length (data b) = unat (size_buf b)"
    and "calloc_ok ex" and "malloc_ok ex" and "ev_add_ok ex"
  shows "\<exists>b fb. schedule_error_message cfg ex (Some es) c =
           Inr (True, c\<lparr>state := ERROR, free_bufs := fb, write_bufs := write_bufs c @ [b],
                        write_ev := Some (wev\<lparr>inserted := True, timeo := server_timeout cfg\<rparr>)\<rparr>)
         \<and> take (length (packed ex (TYPE_ERROR es)) + 4) (data b) = frame (packed ex (TYPE_ERROR es))
         \<and> len b = of_nat (length (packed ex (TYPE_ERROR es)) + 4)"
proof -
  let ?c1 = "c\<lparr>state := ERROR\<rparr>"
  have wf1: "\<forall>b \<in> set (free_bufs ?c1). length (data b) = unat (size_buf b)"
    using wf by simp
  from fmt_server_message_ok [OF fit max wf1 assms(6) assms(7)]
  obtain c2 where f: "fmt_server_message cfg ex ?c1 (TYPE_ERROR es) = Inr (True, c2)" ..
  from fmt_server_message_True [OF f]
  obtain b fb where c2: "c2 = ?c1\<lparr>free_bufs := fb, write_bufs := write_bufs ?c1 @ [b]\<rparr>"
    and fr: "take (length (packed ex (TYPE_ERROR es)) + 4) (data b) = frame (packed ex (TYPE_ERROR es))"
    and ln: "len b = of_nat (length (packed ex (TYPE_ERROR es)) + 4)"
    by blast
  have "schedule_error_message cfg ex (Some es) c =
      Inr (True, c2\<lparr>write_ev := Some (wev\<lparr>inserted := True, timeo := server_timeout cfg\<rparr>)\<rparr>)"
    using assms(1) wev f assms(8)
    by (simp add: schedule_error_message_def fmt_error_message_def sudo_ev_add_def)
  then show ?thesis using c2 fr ln by auto
qed

lemma loop_oversize:
  assumes "4 \<le> unat (len (read_buf c) - off (read_buf c))"
    and "load32 (data (read_buf c)) (unat (off (read_buf c))) = Some msg_len"
    and "MESSAGE_SIZE_MAX cfg < unat msg_len"
  shows "client_msg_cb_loop cfg ex h c =
         send_error cfg ex (c\<lparr>errstr := Some ''client message too large''\<rparr>)"
  apply (subst client_msg_cb_loop.simps)
  using assms apply (simp add: Let_def)
  done

text \<open>
  Claim C8. Let the decode loop stand at a length prefix that exceeds
  \<^verbatim>\<open>MESSAGE_SIZE_MAX\<close>, on a connection that has a write event and is not in state
  \<^verbatim>\<open>ERROR\<close>, and let the error reply fit, memory be available and the write event be
  accepted by the event loop. Then the callback returns with the error string
  "client message too large", the read event deregistered, the state \<^verbatim>\<open>ERROR\<close>, the frame
  of the error reply appended to the write queue and the write event pending.
\<close>

theorem oversize_frame:
  assumes "4 \<le> unat (len (read_buf c) - off (read_buf c))"
    and "load32 (data (read_buf c)) (unat (off (read_buf c))) = Some msg_len"
    and "MESSAGE_SIZE_MAX cfg < unat msg_len"
    and "state c \<noteq> ERROR" and "write_ev c = Some wev"
    and "length (packed ex (TYPE_ERROR ''client message too large'')) \<le> MESSAGE_SIZE_MAX cfg"
    and "MESSAGE_SIZE_MAX cfg + 4 \<le> 2 ^ 31"
    and "\<forall>b \<in> set (free_bufs c). length (data b) = unat (size_buf b)"
    and "calloc_ok ex" and "malloc_ok ex" and "ev_add_ok ex"
  shows "\<exists>c' b. client_msg_cb_loop cfg ex h c = Return c'
           \<and> errstr c' = Some ''client message too large''
           \<and> \<not> inserted (read_ev c')
           \<and> state c' = ERROR
           \<and> write_bufs c' = write_bufs c @ [b]
           \<and> take (length (packed ex (TYPE_ERROR ''client message too large'')) + 4) (data b)
               = frame (packed ex (TYPE_ERROR ''client message too large''))
           \<and> len b = of_nat (length (packed ex (TYPE_ERROR ''client message too large'')) + 4)
           \<and> write_ev c' = Some (wev\<lparr>inserted := True, timeo := server_timeout cfg\<rparr>)"
proof -
  let ?es = "''client message too large''"
  let ?c1 = "c\<lparr>errstr := Some ?es, read_ev := sudo_ev_del (read_ev c)\<rparr>"
  have "state ?c1 \<noteq> ERROR" "write_ev ?c1 = Some wev"
    "\<forall>b \<in> set (free_bufs ?c1). length (data b) = unat (size_buf b)"
    using assms(4,5,8) by simp_all
  from schedule_error_message_ok [OF this(1,2) assms(6,7) this(3) assms(9,10,11)]
  obtain b fb where s: "schedule_error_message cfg ex (Some ?es) ?c1 =
           Inr (True, ?c1\<lparr>state := ERROR, free_bufs := fb, write_bufs := write_bufs ?c1 @ [b],
                        write_ev := Some (wev\<lparr>inserted := True, timeo := server_timeout cfg\<rparr>)\<rparr>)"
    and fr: "take (length (packed ex (TYPE_ERROR ?es)) + 4) (data b) = frame (packed ex (TYPE_ERROR ?es))"
    and ln: "len b = of_nat (length (packed ex (TYPE_ERROR ?es)) + 4)"
    by blast
  let ?c' = "?c1\<lparr>state := ERROR, free_bufs := fb, write_bufs := write_bufs ?c1 @ [b],
                        write_ev := Some (wev\<lparr>inserted := True, timeo := server_timeout cfg\<rparr>)\<rparr>"
  have "send_error cfg ex (c\<lparr>errstr := Some ?es\<rparr>) = Return ?c'"
    using s by (simp add: send_error_def Let_def)
  then have "client_msg_cb_loop cfg ex h c = Return ?c'"
    using loop_oversize [OF assms(1,2,3)] by simp
  moreover have "errstr ?c' = Some ?es" "\<not> inserted (read_ev ?c')" "state ?c' = ERROR"
    "write_bufs ?c' = write_bufs c @ [b]"
    "write_ev ?c' = Some (wev\<lparr>inserted := True, timeo := server_timeout cfg\<rparr>)"
    by (simp_all add: sudo_ev_del_def)
  ultimately show ?thesis using fr ln by blast
qed

theorem oversize_frame_witness:
  "load32 (data (read_buf closure_oversize)) 0 = Some 0x00100000
   \<and> MESSAGE_SIZE_MAX conf0 < unat (0x00100000 :: uint32)
   \<and> (\<exists>c' b. client_msg_cb_loop conf0 ext0 (handle_client_message conf0 ext0 cms_ok) closure_oversize
               = Return c'
         \<and> errstr c' = Some ''client message too large'' \<and> \<not> inserted (read_ev c')
         \<and> state c' = ERROR \<and> write_bufs c' = [b]
         \<and> write_ev c' = Some \<lparr>inserted = True, timeo = Some (30, 0)\<rparr>)"
proof -
  have l: "load32 (data (read_buf closure_oversize)) (unat (off (read_buf closure_oversize))) = Some 0x00100000"
    by (simp add: closure_oversize_def load32_def rd32_def)
  have m: "MESSAGE_SIZE_MAX conf0 < unat (0x00100000 :: uint32)"
    by (simp add: conf0_def)
  have a: "4 \<le> unat (len (read_buf closure_oversize) - off (read_buf closure_oversize))"
    by (simp add: closure_oversize_def)
  from oversize_frame [OF a l m, where wev = "\<lparr>inserted = False, timeo = None\<rparr>" and ex = ext0
      and h = "handle_client_message conf0 ext0 cms_ok"]
  have "\<exists>c' b. client_msg_cb_loop conf0 ext0 (handle_client_message conf0 ext0 cms_ok) closure_oversize
               = Return c'
         \<and> errstr c' = Some ''client message too large'' \<and> \<not> inserted (read_ev c')
         \<and> state c' = ERROR \<and> write_bufs c' = write_bufs closure_oversize @ [b]
         \<and> write_ev c' = Some (\<lparr>inserted = False, timeo = None\<rparr>\<lparr>inserted := True, timeo := server_timeout conf0\<rparr>)"
    by (simp add: closure_oversize_def closure0_eq ext0_def conf0_def pack0_def) blast
  then show ?thesis
    using l m by (simp add: closure_oversize_def closure0_eq conf0_def)
qed

lemma fmt_server_message_fits:
  "fmt_server_message cfg ex c msg = Inr (True, c') \<Longrightarrow> length (packed ex msg) \<le> MESSAGE_SIZE_MAX cfg"
  by (cases "length (packed ex msg) \<le> MESSAGE_SIZE_MAX cfg")
     (simp_all add: fmt_server_message_def Let_def)

text \<open>
  Claim C3. Let \<^verbatim>\<open>fmt_server_message\<close> encode a record successfully, and let a read
  buffer hold, from offset zero, the bytes of the write buffer that the encoder
  appended. Then the decode loop hands exactly the packed bytes of the record to the
  message handler, once, and consumes the whole frame. (\<^verbatim>\<open>MESSAGE_SIZE_MAX\<close> plus the
  prefix fits into the 32 bits of the length fields.)
\<close>

theorem framing_round_trip:
  assumes enc: "fmt_server_message cfg ex s msg = Inr (True, s')"
    and max: "MESSAGE_SIZE_MAX cfg + 4 < 2 ^ 32"
    and rb0: "off (read_buf c) = 0"
    and rbl: "len (read_buf c) = len (last (write_bufs s'))"
    and rbd: "take (unat (len (read_buf c))) (data (read_buf c)) =
              take (unat (len (last (write_bufs s')))) (data (last (write_bufs s')))"
  shows "client_msg_cb_loop cfg ex h c =
     (case h (packed ex msg) (c\<lparr>read_buf := (read_buf c)\<lparr>off := 4\<rparr>\<rparr>) of
        Inl f \<Rightarrow> Crash f
      | Inr (False, c1) \<Rightarrow> send_error cfg ex (c1\<lparr>errstr := Some ''invalid ClientMessage''\<rparr>)
      | Inr (True, c1) \<Rightarrow>
          (let c2 = c1\<lparr>read_buf := (read_buf c)\<lparr>len := 0, off := 0\<rparr>\<rparr> in
           if state c2 = FINISHED then Close c2 else Return c2))"
proof -
  let ?p = "packed ex msg"
  from fmt_server_message_True [OF enc]
  obtain b fb where s': "s' = s\<lparr>free_bufs := fb, write_bufs := write_bufs s @ [b]\<rparr>"
    and fr: "take (length ?p + 4) (data b) = frame ?p"
    and ln: "len b = of_nat (length ?p + 4)"
    by blast
  have lb: "last (write_bufs s') = b" using s' by simp
  have fit: "length ?p \<le> MESSAGE_SIZE_MAX cfg" using enc by (rule fmt_server_message_fits)
  have lp: "length ?p + 4 < 2 ^ 32" using fit max by simp
  have u4: "unat (of_nat (length ?p + 4) :: uint32) = length ?p + 4"
    unfolding unat_of_nat using lp by simp
  have l: "len (read_buf c) = of_nat (length ?p + 4)"
    using rbl lb ln by simp
  have ul: "unat (len (read_buf c)) = length ?p + 4"
    by (simp only: l u4)
  have t: "take (length ?p + 4) (data (read_buf c)) = frame ?p"
    using rbd fr unfolding ul lb ln u4 by simp
  have "length (take (length ?p + 4) (data (read_buf c))) = length ?p + 4"
    unfolding t by (rule length_frame)
  then have g: "length ?p + 4 \<le> length (data (read_buf c))"
    by simp
  show ?thesis
    by (rule decode_frame [OF fit max rb0 l t g])
qed

theorem framing_round_trip_witness:
  "\<exists>s'. fmt_server_message conf0 ext0 closure0 (TYPE_HELLO ''Sudo Audit Server'') = Inr (True, s')
      \<and> client_msg_cb_loop conf0 ext0 hello_only
            (closure0\<lparr>read_buf := (last (write_bufs s'))\<lparr>off := 0\<rparr>\<rparr>)
          = Return (closure0\<lparr>read_buf := (last (write_bufs s'))\<lparr>len := 0, off := 0\<rparr>\<rparr>)"
proof -
  have "\<exists>s'. fmt_server_message conf0 ext0 closure0 (TYPE_HELLO ''Sudo Audit Server'') = Inr (True, s')"
    by (rule fmt_server_message_ok) (simp_all add: closure0_eq ext0_def conf0_def pack0_def)
  then obtain s' where e: "fmt_server_message conf0 ext0 closure0 (TYPE_HELLO ''Sudo Audit Server'') = Inr (True, s')" ..
  let ?b = "(last (write_bufs s'))\<lparr>off := 0\<rparr>"
  have o: "off (read_buf (closure0\<lparr>read_buf := ?b\<rparr>)) = 0" by simp
  have m: "MESSAGE_SIZE_MAX conf0 + 4 < 2 ^ 32" by (simp add: conf0_def)
  from framing_round_trip [OF e m o, where h = hello_only]
  have "client_msg_cb_loop conf0 ext0 hello_only (closure0\<lparr>read_buf := ?b\<rparr>)
          = Return (closure0\<lparr>read_buf := (last (write_bufs s'))\<lparr>len := 0, off := 0\<rparr>\<rparr>)"
    by (simp add: hello_only_def ext0_def closure0_eq)
  then show ?thesis using e by blast
qed

subsection \<open>Reading, and closing a store-first connection\<close>

lemma closure0_more:
  "\<not> write_instead_of_read closure0" "sock closure0 = 5" "journal closure0 = None"
  "journal_path closure0 = None" "errstr closure0 = None" "store_first closure0 = False"
  by (simp_all add: closure0_def connection_closure_alloc_def Let_def conf0_def ext0_def)

lemma loop_exit:
  assumes "unat (len (read_buf c) - off (read_buf c)) < 4"
  shows "client_msg_cb_loop cfg ex h c =
     (let c1 = c\<lparr>read_buf := (read_buf c)\<lparr>len := len (read_buf c) - off (read_buf c), off := 0\<rparr>\<rparr>
      in if state c1 = FINISHED then Close c1 else Return c1)"
  apply (subst client_msg_cb_loop.simps)
  using assms apply (simp add: Let_def)
  done

lemma loop_step:
  assumes "4 \<le> unat (len (read_buf c) - off (read_buf c))"
    and "load32 (data (read_buf c)) (unat (off (read_buf c))) = Some msg_len"
    and "unat msg_len \<le> MESSAGE_SIZE_MAX cfg"
    and "unat msg_len + 4 \<le> unat (len (read_buf c) - off (read_buf c))"
    and "load (data (read_buf c)) (unat (off (read_buf c) + 4)) (unat msg_len) = Some m"
    and "h m (c\<lparr>read_buf := (read_buf c)\<lparr>off := off (read_buf c) + 4\<rparr>\<rparr>) = Inr (True, c1)"
  shows "client_msg_cb_loop cfg ex h c =
     client_msg_cb_loop cfg ex h
       (c1\<lparr>read_buf := (read_buf c)\<lparr>off := off (read_buf c) + 4 + msg_len\<rparr>\<rparr>)"
  apply (subst client_msg_cb_loop.simps)
  using assms apply (simp add: Let_def)
  done

lemma loop_handler_failed:
  assumes "4 \<le> unat (len (read_buf c) - off (read_buf c))"
    and "load32 (data (read_buf c)) (unat (off (read_buf c))) = Some msg_len"
    and "unat msg_len \<le> MESSAGE_SIZE_MAX cfg"
    and "unat msg_len + 4 \<le> unat (len (read_buf c) - off (read_buf c))"
    and "load (data (read_buf c)) (unat (off (read_buf c) + 4)) (unat msg_len) = Some m"
    and "h m (c\<lparr>read_buf := (read_buf c)\<lparr>off := off (read_buf c) + 4\<rparr>\<rparr>) = Inr (False, c1)"
  shows "client_msg_cb_loop cfg ex h c =
     send_error cfg ex (c1\<lparr>errstr := Some ''invalid ClientMessage''\<rparr>)"
  apply (subst client_msg_cb_loop.simps)
  using assms apply (simp add: Let_def)
  done

lemma client_msg_cb_plain_read:
  assumes "ssl c = None" and "\<not> write_instead_of_read c" and "what \<noteq> SUDO_EV_TIMEOUT"
    and "rd (nbytes_requested c) = READ_N xs"
    and "store (data (read_buf c)) (unat (len (read_buf c))) xs = Some d"
  shows "client_msg_cb cfg ex h what srd rd c =
     client_msg_cb_loop cfg ex h
       (c\<lparr>read_buf := (read_buf c)\<lparr>data := d, len := len (read_buf c) + of_nat (length xs)\<rparr>\<rparr>)"
  using assms by (simp add: client_msg_cb_def Let_def)

lemma send_error_ok:
  assumes "errstr c = Some es" and "state c \<noteq> ERROR" and "write_ev c = Some wev"
    and "length (packed ex (TYPE_ERROR es)) \<le> MESSAGE_SIZE_MAX cfg"
    and "MESSAGE_SIZE_MAX cfg + 4 \<le> 2 ^ 31"
    and "\<forall>b \<in> set (free_bufs c). length (data b) = unat (size_buf b)"
    and "calloc_ok ex" and "malloc_ok ex" and "ev_add_ok ex"
  shows "\<exists>c'. send_error cfg ex c = Return c' \<and> state c' = ERROR \<and> errstr c' = Some es"
proof -
  let ?c1 = "c\<lparr>read_ev := sudo_ev_del (read_ev c)\<rparr>"
  have "state ?c1 \<noteq> ERROR" "write_ev ?c1 = Some wev"
    "\<forall>b \<in> set (free_bufs ?c1). length (data b) = unat (size_buf b)"
    using assms(2,3,6) by simp_all
  from schedule_error_message_ok [OF this(1,2) assms(4,5) this(3) assms(7,8,9)]
  obtain b fb where "schedule_error_message cfg ex (Some es) ?c1 =
           Inr (True, ?c1\<lparr>state := ERROR, free_bufs := fb, write_bufs := write_bufs ?c1 @ [b],
                        write_ev := Some (wev\<lparr>inserted := True, timeo := server_timeout cfg\<rparr>)\<rparr>)"
    by blast
  then show ?thesis
    using assms(1) by (simp add: send_error_def Let_def)
qed

lemma tail_next_read:
  "\<exists>c'. client_msg_cb conf0 ext0 (handle_client_message conf0 ext0 cms_ok) SUDO_EV_READ
          (\<lambda>n. SSL_ERROR_OTHER) (\<lambda>n. READ_N [0]) closure_tail_after = Return c'
        \<and> state c' = ERROR \<and> errstr c' = Some ''invalid ClientMessage''"
proof -
  let ?h = "handle_client_message conf0 ext0 cms_ok"
  have mx: "MESSAGE_SIZE_MAX conf0 = 524288"
    by (simp add: conf0_def)
  have h: "\<And>c. ?h [] c = Inr (False, c)"
    by (simp add: handle_client_message_def ext0_def unpack0_def)
  have "client_msg_cb conf0 ext0 ?h SUDO_EV_READ (\<lambda>n. SSL_ERROR_OTHER) (\<lambda>n. READ_N [0])
      closure_tail_after =
      client_msg_cb_loop conf0 ext0 ?h
       (closure_tail_after\<lparr>read_buf := (read_buf closure_tail_after)
          \<lparr>data := [0, 0, 0, 0, 106, 0, 0, 0, 1] @ replicate 65527 0,
           len := len (read_buf closure_tail_after) + of_nat (length [0 :: byte])\<rparr>\<rparr>)"
    by (rule client_msg_cb_plain_read)
       (simp_all add: closure_tail_after_def closure0_eq closure0_more store_def)
  also have "\<dots> = client_msg_cb_loop conf0 ext0 ?h closure_tail_next"
    by (simp add: closure_tail_after_def closure_tail_next_def)
  also have "\<dots> = send_error conf0 ext0
      (closure_tail_next\<lparr>read_buf := (read_buf closure_tail_next)\<lparr>off := off (read_buf closure_tail_next) + 4\<rparr>,
         errstr := Some ''invalid ClientMessage''\<rparr>)"
    by (rule loop_handler_failed [where m = "[]" and msg_len = 0])
       (simp_all add: closure_tail_next_def load32_def rd32_def load_def mx h)
  finally have e: "client_msg_cb conf0 ext0 ?h SUDO_EV_READ (\<lambda>n. SSL_ERROR_OTHER) (\<lambda>n. READ_N [0])
      closure_tail_after = send_error conf0 ext0
      (closure_tail_next\<lparr>read_buf := (read_buf closure_tail_next)\<lparr>off := off (read_buf closure_tail_next) + 4\<rparr>,
         errstr := Some ''invalid ClientMessage''\<rparr>)" .
  have "\<exists>c'. send_error conf0 ext0
      (closure_tail_next\<lparr>read_buf := (read_buf closure_tail_next)\<lparr>off := off (read_buf closure_tail_next) + 4\<rparr>,
         errstr := Some ''invalid ClientMessage''\<rparr>) = Return c' \<and> state c' = ERROR
        \<and> errstr c' = Some ''invalid ClientMessage''"
    by (rule send_error_ok [where wev = "\<lparr>inserted = False, timeo = None\<rparr>"])
       (simp_all add: closure_tail_next_def closure0_eq ext0_def conf0_def pack0_def)
  then show ?thesis unfolding e .
qed

text \<open>
  Claim C2 fails on the code. One read delivers a complete frame (a \<^verbatim>\<open>ClientHello\<close> of
  two bytes) and the first three bytes 00 00 01 of the next length prefix. The loop
  consumes the frame and leaves with three bytes unconsumed at offset 6. The statements
  after the loop set \<^verbatim>\<open>len\<close> to 3 and \<^verbatim>\<open>off\<close> to 0 and move no byte, so the buffer now
  presents the bytes 00 00 00 of the old prefix as unconsumed. The next read stores the
  fourth byte of the prefix after them; the server decodes a message of length zero
  and answers the valid stream with the error "invalid ClientMessage".
\<close>

theorem tail_not_moved:
  "client_msg_cb_loop conf0 ext0 (handle_client_message conf0 ext0 cms_ok) closure_tail
     = Return closure_tail_after
   \<and> pending ((read_buf closure_tail)\<lparr>off := 6\<rparr>) = [0, 0, 1]
   \<and> pending (read_buf closure_tail_after) = [0, 0, 0]
   \<and> (\<exists>c'. client_msg_cb conf0 ext0 (handle_client_message conf0 ext0 cms_ok) SUDO_EV_READ
            (\<lambda>n. SSL_ERROR_OTHER) (\<lambda>n. READ_N [0]) closure_tail_after = Return c'
          \<and> state c' = ERROR \<and> errstr c' = Some ''invalid ClientMessage'')"
proof -
  let ?h = "handle_client_message conf0 ext0 cms_ok"
  let ?c1 = "closure_tail\<lparr>read_buf := (read_buf closure_tail)\<lparr>off := 4\<rparr>\<rparr>"
  have h: "\<And>c. state c = INITIAL \<Longrightarrow> ?h [106, 0] c = Inr (True, c)"
    by (simp add: handle_client_message_def ext0_def unpack0_def handle_client_hello_def)
  have mx: "MESSAGE_SIZE_MAX conf0 = 524288"
    by (simp add: conf0_def)
  have "client_msg_cb_loop conf0 ext0 ?h closure_tail =
      client_msg_cb_loop conf0 ext0 ?h
        (?c1\<lparr>read_buf := (read_buf closure_tail)\<lparr>off := off (read_buf closure_tail) + 4 + 2\<rparr>\<rparr>)"
    by (rule loop_step [where m = "[106, 0]"])
       (simp_all add: closure_tail_def load32_def rd32_def load_def mx h closure0_eq)
  also have "\<dots> = Return closure_tail_after"
    by (subst loop_exit) (simp_all add: closure_tail_def closure_tail_after_def closure0_eq Let_def)
  finally have 1: "client_msg_cb_loop conf0 ext0 ?h closure_tail = Return closure_tail_after" .
  have 2: "pending ((read_buf closure_tail)\<lparr>off := 6\<rparr>) = [0, 0, 1]"
    by (simp add: pending_def closure_tail_def)
  have 3: "pending (read_buf closure_tail_after) = [0, 0, 0]"
    by (simp add: pending_def closure_tail_after_def)
  show ?thesis using 1 2 3 tail_next_read by blast
qed

lemma nbytes_requested_plain:
  assumes "ssl c = None" and "len (read_buf c) \<le> size_buf (read_buf c)"
  shows "unat (len (read_buf c)) + nbytes_requested c = unat (size_buf (read_buf c))"
  using assms by (simp add: nbytes_requested_def Let_def unat_sub word_le_nat_alt)

lemma nbytes_requested_tls:
  assumes "ssl c \<noteq> None" and "len (read_buf c) \<noteq> 0"
  shows "unat (size_buf (read_buf c)) < unat (len (read_buf c)) + nbytes_requested c"
  using assms by (simp add: nbytes_requested_def Let_def unat_gt_0)

lemma client_msg_cb_overrun:
  assumes "ssl c \<noteq> None" and "\<not> write_instead_of_read c" and "what \<noteq> SUDO_EV_TIMEOUT"
    and "srd (nbytes_requested c) = SSL_N xs"
    and "length (data (read_buf c)) < unat (len (read_buf c)) + length xs"
  shows "client_msg_cb cfg ex h what srd rd c = Crash Out_of_bounds"
  using assms by (simp add: client_msg_cb_def store_def Let_def)

text \<open>
  Claim C4 fails on the code. On a TLS connection a first read buffers two bytes. The
  next run of the callback asks \<^verbatim>\<open>SSL_read\<close> for \<^verbatim>\<open>size\<close> bytes, 65536, to be stored at
  offset 2 of a storage of 65536 bytes, and a transport that delivers them writes past
  the end of the storage. The plaintext path asks for \<^verbatim>\<open>size - len\<close> bytes, 65534.
\<close>

theorem tls_read_overruns:
  "client_msg_cb conf0 ext0 (handle_client_message conf0 ext0 cms_ok) SUDO_EV_READ
      (\<lambda>n. SSL_N [0, 0]) (\<lambda>n. READ_ERR) closure_tls = Return closure_tls_2
   \<and> nbytes_requested closure_tls_2 = 65536
   \<and> unat (len (read_buf closure_tls_2)) = 2
   \<and> unat (size_buf (read_buf closure_tls_2)) = 65536
   \<and> client_msg_cb conf0 ext0 (handle_client_message conf0 ext0 cms_ok) SUDO_EV_READ
        (\<lambda>n. SSL_N (replicate n 1)) (\<lambda>n. READ_ERR) closure_tls_2 = Crash Out_of_bounds
   \<and> nbytes_requested (closure_tls_2\<lparr>ssl := None\<rparr>) = 65534"
proof -
  let ?h = "handle_client_message conf0 ext0 cms_ok"
  have "client_msg_cb conf0 ext0 ?h SUDO_EV_READ (\<lambda>n. SSL_N [0, 0]) (\<lambda>n. READ_ERR) closure_tls =
      client_msg_cb_loop conf0 ext0 ?h closure_tls_2"
    by (simp add: client_msg_cb_def closure_tls_def closure_tls_2_def closure0_eq closure0_more
        store_def Let_def)
  also have "\<dots> = Return closure_tls_2"
    by (subst loop_exit) (simp_all add: closure_tls_2_def closure_tls_def closure0_eq Let_def)
  finally have 1: "client_msg_cb conf0 ext0 ?h SUDO_EV_READ (\<lambda>n. SSL_N [0, 0]) (\<lambda>n. READ_ERR) closure_tls
      = Return closure_tls_2" .
  have 2: "nbytes_requested closure_tls_2 = 65536" "unat (len (read_buf closure_tls_2)) = 2"
    "unat (size_buf (read_buf closure_tls_2)) = 65536"
    "nbytes_requested (closure_tls_2\<lparr>ssl := None\<rparr>) = 65534"
    by (simp_all add: nbytes_requested_def closure_tls_2_def closure_tls_def Let_def)
  have 3: "client_msg_cb conf0 ext0 ?h SUDO_EV_READ (\<lambda>n. SSL_N (replicate n 1)) (\<lambda>n. READ_ERR)
      closure_tls_2 = Crash Out_of_bounds"
    by (rule client_msg_cb_overrun [where xs = "replicate 65536 1"])
       (simp_all add: 2, simp_all add: closure_tls_2_def closure_tls_def closure0_more)
  show ?thesis using 1 2 3 by blast
qed

lemma connection_closure_alloc_relay_only:
  assumes "connection_closure_alloc cfg ex fd tls True = (es, Some n)"
  shows "es = [] \<and> cms n = CMS_RELAY \<and> journal n = None \<and> journal_path n = None
     \<and> write_ev n = None \<and> commit_ev n = None \<and> store_first n = False \<and> state n = INITIAL"
  using assms by (auto simp: connection_closure_alloc_def Let_def split: if_splits)

lemma connection_closure_free_no_unlink: "Unlink p \<notin> set (connection_closure_free c)"
  by (auto simp: connection_closure_free_def split: option.splits)

lemma connection_closure_alloc_no_unlink:
  "Unlink p \<notin> set (fst (connection_closure_alloc cfg ex fd tls relay_only))"
  by (simp add: connection_closure_alloc_def Let_def connection_closure_free_no_unlink)

text \<open>
  When the new connection can be allocated, the journal and its path go to it and the
  closing closure neither unlinks nor closes the journal; a new connection that
  \<^verbatim>\<open>connect_relay\<close> refuses is freed, which closes the journal file and unlinks nothing.
\<close>

lemma connection_close_handover:
  assumes "store_first c" and "state c = FINISHED" and "relay_closure c = None"
    and "journal c = Some j"
    and "connection_closure_alloc cfg ex (fileno j) False True = (es, Some n)"
    and "connect_relay ex (n\<lparr>journal := Some j, journal_path := journal_path c\<rparr>) = (ok, n2)"
  shows "connection_close cfg ex c =
     ((if ok then [] else connection_closure_free n2) @ [Close_fd (sock c)],
      if ok then Some n2 else None)"
proof -
  have "es = []" using assms(5) connection_closure_alloc_relay_only by blast
  then show ?thesis
    using assms by (simp add: connection_close_def Let_def connection_closure_free_def)
qed

text \<open>
  When the new connection cannot be allocated, nothing is handed over, and the closing
  closure, still in state \<^verbatim>\<open>FINISHED\<close> with its journal path, unlinks the journal.
\<close>

lemma connection_close_alloc_failed:
  assumes "store_first c" and "state c = FINISHED" and "relay_closure c = None"
    and "journal c = Some j"
    and "connection_closure_alloc cfg ex (fileno j) False True = (es, None)"
  shows "connection_close cfg ex c =
     (es @ (case journal_path c of None \<Rightarrow> [] | Some p \<Rightarrow> [Unlink p])
         @ [Close_fd (sock c), Fclose j], None)"
  using assms by (simp add: connection_close_def Let_def connection_closure_free_def)

text \<open>
  So a store-first connection that is closed in state \<^verbatim>\<open>FINISHED\<close> with its journal
  unlinks a file exactly when no new connection could be allocated: the journal is
  removed on the one run in which it was never handed over.
\<close>

lemma unlink_means_no_handover:
  assumes sf: "store_first c" and st: "state c = FINISHED" and rc: "relay_closure c = None"
    and j: "journal c = Some j"
    and u: "Unlink p \<in> set (fst (connection_close cfg ex c))"
  shows "snd (connection_closure_alloc cfg ex (fileno j) False True) = None
     \<and> snd (connection_close cfg ex c) = None \<and> journal_path c = Some p"
proof (cases "connection_closure_alloc cfg ex (fileno j) False True")
  case (Pair es r)
  have nu: "Unlink p \<notin> set es"
    using connection_closure_alloc_no_unlink [of p cfg ex "fileno j" False True] Pair by simp
  show ?thesis
  proof (cases r)
    case None
    have e: "connection_close cfg ex c =
       (es @ (case journal_path c of None \<Rightarrow> [] | Some p \<Rightarrow> [Unlink p])
           @ [Close_fd (sock c), Fclose j], None)"
      using sf st rc j Pair None by (simp add: connection_close_alloc_failed)
    have "Unlink p \<in> set (es @ (case journal_path c of None \<Rightarrow> [] | Some p \<Rightarrow> [Unlink p])
           @ [Close_fd (sock c), Fclose j])"
      using u by (simp only: e fst_conv)
    then have "journal_path c = Some p"
      using nu by (cases "journal_path c") simp_all
    then show ?thesis using Pair None e by simp
  next
    case (Some n)
    obtain ok n2 where r2: "connect_relay ex (n\<lparr>journal := Some j, journal_path := journal_path c\<rparr>) = (ok, n2)"
      by (cases "connect_relay ex (n\<lparr>journal := Some j, journal_path := journal_path c\<rparr>)")
    have a: "connection_closure_alloc cfg ex (fileno j) False True = (es, Some n)"
      using Pair Some by simp
    have e: "connection_close cfg ex c =
       ((if ok then [] else connection_closure_free n2) @ [Close_fd (sock c)],
        if ok then Some n2 else None)"
      by (rule connection_close_handover [OF sf st rc j a r2])
    have "Unlink p \<in> set ((if ok then [] else connection_closure_free n2) @ [Close_fd (sock c)])"
      using u by (simp only: e fst_conv)
    then have "Unlink p \<in> set (connection_closure_free n2)"
      by (cases ok) simp_all
    then have False using connection_closure_free_no_unlink by blast
    then show ?thesis ..
  qed
qed

text \<open>
  Claim C9 fails on the code. A store-first connection is closed in state \<^verbatim>\<open>FINISHED\<close>;
  it owns the journal file 7 and its path and has no relay closure. When \<^verbatim>\<open>calloc\<close>
  fails in \<^verbatim>\<open>connection_closure_alloc\<close>, no relay-only connection exists and nothing is
  handed over or replayed, and yet \<^verbatim>\<open>connection_close\<close> unlinks the journal, closes the
  socket and closes the journal file. The same happens when \<^verbatim>\<open>calloc\<close> succeeds and the
  \<^verbatim>\<open>malloc\<close> of the read buffer fails, after the half-built closure has been freed
  (which closes its socket -1). The claim says that the journal is unlinked only after
  successful replay to the relay. With memory available the same connection hands
  its journal and path to the new connection and unlinks nothing.
\<close>

theorem journal_unlinked_without_handover:
  "store_first closure_journal \<and> state closure_journal = FINISHED
   \<and> relay_closure closure_journal = None \<and> journal closure_journal = Some 7
   \<and> journal_path closure_journal = Some ''/var/log/sudo_logsrvd/incoming/journal''
   \<and> connection_closure_alloc conf0 ext_nomem (fileno 7) False True = ([], None)
   \<and> connection_close conf0 ext_nomem closure_journal =
        ([Unlink ''/var/log/sudo_logsrvd/incoming/journal'', Close_fd 5, Fclose 7], None)
   \<and> connection_closure_alloc conf0 ext_nobuf (fileno 7) False True = ([Close_fd (- 1)], None)
   \<and> connection_close conf0 ext_nobuf closure_journal =
        ([Close_fd (- 1), Unlink ''/var/log/sudo_logsrvd/incoming/journal'', Close_fd 5,
          Fclose 7], None)
   \<and> fst (connection_close conf0 ext0 closure_journal) = [Close_fd 5]
   \<and> map_option journal (snd (connection_close conf0 ext0 closure_journal)) = Some (Some 7)
   \<and> map_option journal_path (snd (connection_close conf0 ext0 closure_journal)) =
        Some (Some ''/var/log/sudo_logsrvd/incoming/journal'')"
proof -
  have p: "store_first closure_journal" "state closure_journal = FINISHED"
    "relay_closure closure_journal = None" "journal closure_journal = Some 7"
    "journal_path closure_journal = Some ''/var/log/sudo_logsrvd/incoming/journal''"
    "sock closure_journal = 5"
    by (simp_all add: closure_journal_def closure0_eq closure0_more)
  have a1: "connection_closure_alloc conf0 ext_nomem (fileno 7) False True = ([], None)"
    by (simp add: connection_closure_alloc_def ext_nomem_def ext0_def)
  have a2: "connection_closure_alloc conf0 ext_nobuf (fileno 7) False True = ([Close_fd (- 1)], None)"
    by (simp add: connection_closure_alloc_def Let_def ext_nobuf_def ext0_def
        connection_closure_free_def)
  have c1: "connection_close conf0 ext_nomem closure_journal =
        ([Unlink ''/var/log/sudo_logsrvd/incoming/journal'', Close_fd 5, Fclose 7], None)"
    using connection_close_alloc_failed [OF p(1-4) a1] by (simp add: p(5,6))
  have c2: "connection_close conf0 ext_nobuf closure_journal =
        ([Close_fd (- 1), Unlink ''/var/log/sudo_logsrvd/incoming/journal'', Close_fd 5,
          Fclose 7], None)"
    using connection_close_alloc_failed [OF p(1-4) a2] by (simp add: p(5,6))
  obtain n where a3: "connection_closure_alloc conf0 ext0 (fileno 7) False True = ([], Some n)"
    by (simp add: connection_closure_alloc_def Let_def ext0_def)
  have r: "connect_relay ext0 (n\<lparr>journal := Some 7, journal_path := journal_path closure_journal\<rparr>)
      = (True, n\<lparr>journal := Some 7, journal_path := journal_path closure_journal,
                  relay_closure := Some 1\<rparr>)"
    by (simp add: ext0_def)
  have c3: "connection_close conf0 ext0 closure_journal =
     ([Close_fd 5], Some (n\<lparr>journal := Some 7, journal_path := journal_path closure_journal,
                  relay_closure := Some 1\<rparr>))"
    using connection_close_handover [OF p(1-4) a3 r] by (simp add: p(6))
  have g: "fst (connection_close conf0 ext0 closure_journal) = [Close_fd 5]"
    "map_option journal (snd (connection_close conf0 ext0 closure_journal)) = Some (Some 7)"
    "map_option journal_path (snd (connection_close conf0 ext0 closure_journal)) =
        Some (Some ''/var/log/sudo_logsrvd/incoming/journal'')"
    by (simp_all add: c3 p(5))
  show ?thesis
    using p(1-5) a1 c1 a2 c2 g by (intro conjI)
qed

end
